theory Spec2Isabelle
  imports Complex_Main
begin

section \<open>Go values used by injectproxy/rules.go\<close>

text \<open>
  A call either returns or panics. The panics of this file are the nil-pointer
  dereferences of the decoded document (a JSON \<^verbatim>\<open>null\<close> in a slice of pointers) and
  the missing label values of the request context.
\<close>

datatype 'a outcome = Panic | Return 'a

text \<open>
  Go \<^verbatim>\<open>error\<close> values. \<^verbatim>\<open>errors.New(text)\<close> is a leaf that is identified by its text
  (the file creates one such value only); an error handed back by a library or by code
  outside this file is a leaf of its own kind; \<^verbatim>\<open>fmt.Errorf\<close> keeps its format, its
  \<^verbatim>\<open>%d\<close> and \<^verbatim>\<open>%q\<close> operands, and the errors it wraps with \<^verbatim>\<open>%w\<close>, in order.
\<close>

datatype fmtarg = D int | Q string

datatype goerror =
    errors_New string
  | foreign_error string
  | fmt_Errorf string "fmtarg list" "goerror list"

text \<open>\<^verbatim>\<open>errors.Is\<close>: the error itself, or any error reachable through \<^verbatim>\<open>Unwrap\<close>.\<close>

fun errors_Is :: "goerror \<Rightarrow> goerror \<Rightarrow> bool" where
  "errors_Is (fmt_Errorf f as ws) target =
     (fmt_Errorf f as ws = target \<or> list_ex (\<lambda>e. errors_Is e target) ws)"
| "errors_Is (errors_New s) target = (errors_New s = target)"
| "errors_Is (foreign_error s) target = (foreign_error s = target)"

type_synonym float64 = real
type_synonym Time = string

text \<open>
  \<^verbatim>\<open>labels.Labels\<close> (Prometheus): name/value pairs; \<^verbatim>\<open>Get\<close> returns the value of the
  first pair with the name and the empty string when there is none; \<^verbatim>\<open>Copy\<close> returns an
  equal label set.
\<close>

type_synonym Labels = "(string \<times> string) list"

fun Labels_Get :: "Labels \<Rightarrow> string \<Rightarrow> string" where
  "Labels_Get [] name = ''''"
| "Labels_Get ((n, v) # ls) name = (if n = name then v else Labels_Get ls name)"

definition Labels_Copy :: "Labels \<Rightarrow> Labels" where
  "Labels_Copy ls = ls"

section \<open>The document model\<close>

record apiResponse =
  Status :: string
  Data :: string
  ErrorType :: string
  Error :: string
  Warnings :: "string list"

record alert =
  alert_Labels :: Labels
  alert_Annotations :: Labels
  alert_State :: string
  alert_ActiveAt :: "Time option"
  alert_KeepFiringSince :: "Time option"
  alert_Value :: string

text \<open>\<^verbatim>\<open>Alerts []*alert\<close>: an element is \<open>None\<close> when the pointer is nil.\<close>

record alertingRule =
  ar_State :: string
  ar_Name :: string
  ar_Query :: string
  ar_Duration :: float64
  ar_KeepFiringFor :: float64
  ar_Labels :: Labels
  ar_Annotations :: Labels
  ar_Alerts :: "alert option list"
  ar_Health :: string
  ar_LastError :: string
  ar_EvaluationTime :: float64
  ar_LastEvaluation :: Time
  ar_Type :: string

record recordingRule =
  rr_Name :: string
  rr_Query :: string
  rr_Labels :: Labels
  rr_Health :: string
  rr_LastError :: string
  rr_EvaluationTime :: float64
  rr_LastEvaluation :: Time
  rr_Type :: string

text \<open>\<^verbatim>\<open>type rule struct { *alertingRule; *recordingRule }\<close>: two embedded pointers.\<close>

record rule =
  rule_alertingRule :: "alertingRule option"
  rule_recordingRule :: "recordingRule option"

record ruleGroup =
  rg_Name :: string
  rg_File :: string
  rg_Rules :: "rule list"
  rg_Interval :: float64

text \<open>\<^verbatim>\<open>RuleGroups []*ruleGroup\<close>.\<close>

record rulesData =
  RuleGroups :: "ruleGroup option list"

record alertsData =
  Alerts :: "alert option list"

text \<open>
  \<^verbatim>\<open>func (r *rule) Labels()\<close>: the labels of the alerting rule when that pointer is set,
  else those of the recording rule; with both pointers nil the second read panics.
\<close>

definition rule_Labels :: "rule \<Rightarrow> Labels outcome" where
  "rule_Labels r =
     (case rule_alertingRule r of
        Some a \<Rightarrow> Return (ar_Labels a)
      | None \<Rightarrow>
          (case rule_recordingRule r of
             Some rr \<Rightarrow> Return (rr_Labels rr)
           | None \<Rightarrow> Panic))"

section \<open>HTTP messages\<close>

text \<open>
  \<^verbatim>\<open>http.Header\<close> is a map from canonical keys to value lists. \<^verbatim>\<open>Get\<close> returns the first
  value of the key or the empty string, \<^verbatim>\<open>Del\<close> removes the key. Both keys of this file
  (\<^verbatim>\<open>Content-Encoding\<close>, \<^verbatim>\<open>Content-Length\<close>) are written in canonical form.
\<close>

type_synonym Header = "string \<rightharpoonup> string list"

definition Header_Get :: "Header \<Rightarrow> string \<Rightarrow> string" where
  "Header_Get h key =
     (case h key of None \<Rightarrow> '''' | Some [] \<Rightarrow> '''' | Some (v # vs) \<Rightarrow> v)"

definition Header_Del :: "Header \<Rightarrow> string \<Rightarrow> Header" where
  "Header_Del h key = h(key := None)"

text \<open>
  The body of a response is a stream of bytes that can be read until it is closed.
  A reader is the body itself or a gzip reader set up on it.
\<close>

datatype body = Open string | Closed

datatype reader = BodyReader body | GzipReader body

text \<open>The request carries, in its context, the label values the caller may see.\<close>

record request =
  Context :: "string list option"

record response =
  StatusCode :: int
  Header :: Header
  Body :: body
  Uncompressed :: bool
  Request :: request

section \<open>Code outside this file\<close>

text \<open>
  The standard library calls of the file are parameters: nothing is assumed on what
  they return. \<open>gzip_NewReader\<close> is \<^verbatim>\<open>gzip.NewReader\<close>; \<open>json_Decode\<close> is
  \<^verbatim>\<open>json.NewDecoder(reader).Decode(&apir)\<close>; \<open>json_Unmarshal_ruleType\<close>,
  \<open>json_Unmarshal_alertingRule\<close> and \<open>json_Unmarshal_recordingRule\<close> are the three
  \<^verbatim>\<open>json.Unmarshal\<close> calls of \<^verbatim>\<open>rule.UnmarshalJSON\<close>; \<open>json_Unmarshal_alertsData\<close> is the
  call of \<^verbatim>\<open>filterAlerts\<close>; \<open>json_Marshal\<close> and \<open>json_Encode\<close> are the two encoding calls
  of \<^verbatim>\<open>modifyAPIResponse\<close>. \<open>json_groups\<close> is the part of
  \<^verbatim>\<open>json.Unmarshal(resp.Data, &rgs)\<close> that the library does by itself: it decodes the
  groups and leaves every element of a \<^verbatim>\<open>rules\<close> array as the bytes that the library
  hands to \<^verbatim>\<open>rule.UnmarshalJSON\<close>.
\<close>

record rawGroup =
  raw_Name :: string
  raw_File :: string
  raw_Rules :: "string list"
  raw_Interval :: float64

record 'v stdlib =
  gzip_NewReader :: "body \<Rightarrow> goerror + reader"
  json_Decode :: "reader \<Rightarrow> goerror + apiResponse"
  json_Unmarshal_ruleType :: "string \<Rightarrow> goerror + string"
  json_Unmarshal_alertingRule :: "string \<Rightarrow> goerror + alertingRule"
  json_Unmarshal_recordingRule :: "string \<Rightarrow> goerror + recordingRule"
  json_groups :: "string \<Rightarrow> goerror + rawGroup option list"
  json_Unmarshal_alertsData :: "string \<Rightarrow> goerror + alertsData"
  json_Marshal :: "'v \<Rightarrow> goerror + string"
  json_Encode :: "apiResponse \<Rightarrow> goerror + string"

text \<open>
  \<^verbatim>\<open>routes\<close> is declared in another file of the package. This file reads its fields
  \<^verbatim>\<open>label\<close> and \<^verbatim>\<open>rulesWithActiveAlerts\<close> and calls its method \<^verbatim>\<open>newLabelMatcher\<close>, which
  is a parameter here: it returns an error or a matcher, and a matcher is the predicate
  \<^verbatim>\<open>Matches\<close>.
\<close>

record routes =
  label :: string
  rulesWithActiveAlerts :: bool
  newLabelMatcher :: "string list \<Rightarrow> goerror + (string \<Rightarrow> bool)"

text \<open>
  Modelled from the spec: \<^verbatim>\<open>MustLabelValues\<close> is defined in another file of the package.
  The core reads the allowed label values through a lookup keyed to the request context
  and treats absence as a programming error: it fails, and does not allow everything.
\<close>

definition MustLabelValues :: "string list option \<Rightarrow> string list outcome" where
  "MustLabelValues ctx = (case ctx of None \<Rightarrow> Panic | Some lvalues \<Rightarrow> Return lvalues)"

text \<open>\<^verbatim>\<open>fmt.Sprint\<close> of a length: its decimal digits.\<close>

fun Sprint :: "nat \<Rightarrow> string" where
  "Sprint n =
     (if n < 10 then [''0123456789'' ! n]
      else Sprint (n div 10) @ [''0123456789'' ! (n mod 10)])"

section \<open>getAPIResponse\<close>

text \<open>
  The function returns the response as it leaves it, next to its result. The deferred
  \<^verbatim>\<open>resp.Body.Close()\<close> runs on every return.
\<close>

definition getAPIResponse :: "'v stdlib \<Rightarrow> response \<Rightarrow> response \<times> (goerror + apiResponse)" where
  "getAPIResponse lib resp =
     (case
        (if Header_Get (Header resp) ''Content-Encoding'' = ''gzip'' \<and> \<not> Uncompressed resp
         then
           (case gzip_NewReader lib (Body resp) of
              Inl err \<Rightarrow> Inl (fmt_Errorf ''gzip decoding error: %w'' [] [err])
            | Inr reader \<Rightarrow>
                Inr (reader, resp\<lparr>Header := Header_Del (Header resp) ''Content-Encoding''\<rparr>))
         else Inr (BodyReader (Body resp), resp))
      of
        Inl e \<Rightarrow> (resp\<lparr>Body := Closed\<rparr>, Inl e)
      | Inr (reader, resp1) \<Rightarrow>
          if StatusCode resp1 \<noteq> 200 then
            (resp1\<lparr>Body := Closed\<rparr>,
             Inl (fmt_Errorf ''unexpected status code: %d'' [D (StatusCode resp1)] []))
          else
            (case json_Decode lib reader of
               Inl err \<Rightarrow>
                 (resp1\<lparr>Body := Closed\<rparr>, Inl (fmt_Errorf ''JSON decoding error: %w'' [] [err]))
             | Inr apir \<Rightarrow>
                 if Status apir \<noteq> ''success'' then
                   (resp1\<lparr>Body := Closed\<rparr>,
                    Inl (fmt_Errorf ''unexpected response status: %q'' [Q (Status apir)] []))
                 else (resp1\<lparr>Body := Closed\<rparr>, Inr apir)))"

section \<open>rule.UnmarshalJSON and the decoding of a rules document\<close>

text \<open>
  \<^verbatim>\<open>func (r *rule) UnmarshalJSON(b []byte) error\<close>: the receiver is passed in and, when
  the call succeeds, returned with the pointer of its kind set.
\<close>

definition rule_UnmarshalJSON :: "'v stdlib \<Rightarrow> rule \<Rightarrow> string \<Rightarrow> goerror + rule" where
  "rule_UnmarshalJSON lib r b =
     (case json_Unmarshal_ruleType lib b of
        Inl err \<Rightarrow> Inl err
      | Inr ruleType \<Rightarrow>
          if ruleType = ''alerting'' then
            (case json_Unmarshal_alertingRule lib b of
               Inl err \<Rightarrow> Inl err
             | Inr alertingr \<Rightarrow> Inr (r\<lparr>rule_alertingRule := Some alertingr\<rparr>))
          else if ruleType = ''recording'' then
            (case json_Unmarshal_recordingRule lib b of
               Inl err \<Rightarrow> Inl err
             | Inr recordingr \<Rightarrow> Inr (r\<lparr>rule_recordingRule := Some recordingr\<rparr>))
          else
            Inl (fmt_Errorf ''failed to unmarshal rule: unknown type %q'' [Q ruleType] []))"

text \<open>
  \<^verbatim>\<open>json.Unmarshal(resp.Data, &rgs)\<close>: the library decodes the groups and calls
  \<^verbatim>\<open>rule.UnmarshalJSON\<close> on a zero \<^verbatim>\<open>rule\<close> for every element of a \<^verbatim>\<open>rules\<close> array, in
  order; the first error of such a call ends the decoding and is its result.
\<close>

fun unmarshal_rules :: "'v stdlib \<Rightarrow> string list \<Rightarrow> goerror + rule list" where
  "unmarshal_rules lib [] = Inr []"
| "unmarshal_rules lib (b # bs) =
     (case rule_UnmarshalJSON lib \<lparr>rule_alertingRule = None, rule_recordingRule = None\<rparr> b of
        Inl err \<Rightarrow> Inl err
      | Inr r \<Rightarrow>
          (case unmarshal_rules lib bs of
             Inl err \<Rightarrow> Inl err
           | Inr rs \<Rightarrow> Inr (r # rs)))"

fun unmarshal_groups :: "'v stdlib \<Rightarrow> rawGroup option list \<Rightarrow> goerror + ruleGroup option list" where
  "unmarshal_groups lib [] = Inr []"
| "unmarshal_groups lib (None # gs) =
     (case unmarshal_groups lib gs of
        Inl err \<Rightarrow> Inl err
      | Inr rgs \<Rightarrow> Inr (None # rgs))"
| "unmarshal_groups lib (Some g # gs) =
     (case unmarshal_rules lib (raw_Rules g) of
        Inl err \<Rightarrow> Inl err
      | Inr rs \<Rightarrow>
          (case unmarshal_groups lib gs of
             Inl err \<Rightarrow> Inl err
           | Inr rgs \<Rightarrow>
               Inr (Some \<lparr>rg_Name = raw_Name g, rg_File = raw_File g, rg_Rules = rs,
                          rg_Interval = raw_Interval g\<rparr> # rgs)))"

definition json_Unmarshal_rulesData :: "'v stdlib \<Rightarrow> string \<Rightarrow> goerror + rulesData" where
  "json_Unmarshal_rulesData lib b =
     (case json_groups lib b of
        Inl err \<Rightarrow> Inl err
      | Inr gs \<Rightarrow>
          (case unmarshal_groups lib gs of
             Inl err \<Rightarrow> Inl err
           | Inr rgs \<Rightarrow> Inr \<lparr>RuleGroups = rgs\<rparr>))"

section \<open>modifyAPIResponse\<close>

definition errModifyResponseFailed :: goerror where
  "errModifyResponseFailed = errors_New ''failed to process the API response''"

text \<open>
  The returned function takes the response and returns it as it leaves it, next to the
  error (\<open>None\<close> is \<^verbatim>\<open>nil\<close>). A panic of \<^verbatim>\<open>MustLabelValues\<close> or of \<open>f\<close> is not caught.
\<close>

definition modifyAPIResponse ::
  "'v stdlib \<Rightarrow> (string list \<Rightarrow> request \<Rightarrow> apiResponse \<Rightarrow> (goerror + 'v) outcome) \<Rightarrow>
   response \<Rightarrow> (response \<times> goerror option) outcome" where
  "modifyAPIResponse lib f resp =
     (if StatusCode resp \<noteq> 200 then Return (resp, None)
      else
        (case getAPIResponse lib resp of
           (resp1, Inl err) \<Rightarrow>
             Return (resp1, Some (fmt_Errorf ''can't decode the response: %w'' [] [err]))
         | (resp1, Inr apir) \<Rightarrow>
             (case MustLabelValues (Context (Request resp1)) of
                Panic \<Rightarrow> Panic
              | Return lvalues \<Rightarrow>
                  (case f lvalues (Request resp1) apir of
                     Panic \<Rightarrow> Panic
                   | Return (Inl err) \<Rightarrow>
                       Return (resp1,
                         Some (fmt_Errorf ''%w: %w'' [] [errModifyResponseFailed, err]))
                   | Return (Inr v) \<Rightarrow>
                       (case json_Marshal lib v of
                          Inl err \<Rightarrow>
                            Return (resp1,
                              Some (fmt_Errorf ''can't encode the data: %w'' [] [err]))
                        | Inr b \<Rightarrow>
                            (case json_Encode lib (apir\<lparr>Data := b\<rparr>) of
                               Inl err \<Rightarrow>
                                 Return (resp1,
                                   Some (fmt_Errorf ''can't encode the response: %w'' [] [err]))
                             | Inr buf \<Rightarrow>
                                 Return
                                   (resp1\<lparr>Body := Open buf,
                                      Header := (Header resp1)
                                        (''Content-Length'' \<mapsto> [Sprint (length buf)])\<rparr>,
                                    None)))))))"

section \<open>filterRules\<close>

text \<open>
  The loop over \<^verbatim>\<open>rgr.Alerts\<close> (lines 237 to 267), with the variable \<^verbatim>\<open>ar\<close> as its state.
  \<open>rgr\<close> is the alerting rule of the rule at hand: \<^verbatim>\<open>rgr.Duration\<close>,
  \<^verbatim>\<open>rgr.KeepFiringFor\<close>, \<^verbatim>\<open>rgr.Annotations\<close> and \<^verbatim>\<open>rgr.Alerts\<close> are fields promoted from
  the embedded \<^verbatim>\<open>*alertingRule\<close>.
\<close>

fun filterRules_alerts ::
  "routes \<Rightarrow> (string \<Rightarrow> bool) \<Rightarrow> alertingRule \<Rightarrow> alert option list \<Rightarrow>
   alertingRule option \<Rightarrow> alertingRule option outcome" where
  "filterRules_alerts r m rgr [] ar = Return ar"
| "filterRules_alerts r m rgr (None # alerts) ar = Panic"
| "filterRules_alerts r m rgr (Some a # alerts) ar =
     (let lval = Labels_Get (alert_Labels a) (label r) in
      if lval = '''' \<or> \<not> m lval then filterRules_alerts r m rgr alerts ar
      else
        let ar1 = (case ar of
                     None \<Rightarrow>
                       \<lparr>ar_State = '''',
                        ar_Name = ar_Name rgr,
                        ar_Query = ar_Query rgr,
                        ar_Duration = ar_Duration rgr,
                        ar_KeepFiringFor = ar_KeepFiringFor rgr,
                        ar_Labels = Labels_Copy (ar_Labels rgr),
                        ar_Annotations = Labels_Copy (ar_Annotations rgr),
                        ar_Alerts = [],
                        ar_Health = ar_Health rgr,
                        ar_LastError = ar_LastError rgr,
                        ar_EvaluationTime = ar_EvaluationTime rgr,
                        ar_LastEvaluation = ar_LastEvaluation rgr,
                        ar_Type = ar_Type rgr\<rparr>
                   | Some x \<Rightarrow> x);
            ar2 = ar1\<lparr>ar_Alerts := ar_Alerts ar1 @ [Some a]\<rparr>;
            ar3 = (if ar_State ar2 = ''pending'' then
                     (if alert_State a = ''firing'' then ar2\<lparr>ar_State := alert_State a\<rparr>
                      else ar2)
                   else if ar_State ar2 = '''' then ar2\<lparr>ar_State := alert_State a\<rparr>
                   else ar2)
        in filterRules_alerts r m rgr alerts (Some ar3))"

text \<open>The loop over \<^verbatim>\<open>rg.Rules\<close> (lines 226 to 272), with the slice \<^verbatim>\<open>rules\<close> as its state.\<close>

fun filterRules_rules ::
  "routes \<Rightarrow> (string \<Rightarrow> bool) \<Rightarrow> rule list \<Rightarrow> rule list \<Rightarrow> rule list outcome" where
  "filterRules_rules r m [] rules = Return rules"
| "filterRules_rules r m (rgr # rest) rules =
     (case rule_Labels rgr of
        Panic \<Rightarrow> Panic
      | Return ls \<Rightarrow>
          (let lval = Labels_Get ls (label r) in
           if lval \<noteq> '''' \<and> m lval then filterRules_rules r m rest (rules @ [rgr])
           else if \<not> rulesWithActiveAlerts r \<or> rule_alertingRule rgr = None then
             filterRules_rules r m rest rules
           else
             (case filterRules_alerts r m (the (rule_alertingRule rgr))
                     (ar_Alerts (the (rule_alertingRule rgr))) None of
                Panic \<Rightarrow> Panic
              | Return None \<Rightarrow> filterRules_rules r m rest rules
              | Return (Some ar) \<Rightarrow>
                  filterRules_rules r m rest
                    (rules @ [\<lparr>rule_alertingRule = Some ar, rule_recordingRule = None\<rparr>]))))"

text \<open>
  The loop over \<^verbatim>\<open>rgs.RuleGroups\<close> (lines 224 to 278), with the slice \<^verbatim>\<open>filtered\<close> as its
  state. Reading \<^verbatim>\<open>rg.Rules\<close> through a nil group panics.
\<close>

fun filterRules_groups ::
  "routes \<Rightarrow> (string \<Rightarrow> bool) \<Rightarrow> ruleGroup option list \<Rightarrow> ruleGroup option list \<Rightarrow>
   ruleGroup option list outcome" where
  "filterRules_groups r m [] filtered = Return filtered"
| "filterRules_groups r m (None # rgs) filtered = Panic"
| "filterRules_groups r m (Some rg # rgs) filtered =
     (case filterRules_rules r m (rg_Rules rg) [] of
        Panic \<Rightarrow> Panic
      | Return rules \<Rightarrow>
          if length rules > 0 then
            filterRules_groups r m rgs (filtered @ [Some (rg\<lparr>rg_Rules := rules\<rparr>)])
          else filterRules_groups r m rgs filtered)"

definition filterRules ::
  "'v stdlib \<Rightarrow> routes \<Rightarrow> string list \<Rightarrow> request \<Rightarrow> apiResponse \<Rightarrow>
   (goerror + rulesData) outcome" where
  "filterRules lib r lvalues req resp =
     (case json_Unmarshal_rulesData lib (Data resp) of
        Inl err \<Rightarrow> Return (Inl (fmt_Errorf ''can't decode rules data: %w'' [] [err]))
      | Inr rgs \<Rightarrow>
          (case newLabelMatcher r lvalues of
             Inl err \<Rightarrow> Return (Inl err)
           | Inr m \<Rightarrow>
               (case filterRules_groups r m (RuleGroups rgs) [] of
                  Panic \<Rightarrow> Panic
                | Return filtered \<Rightarrow> Return (Inr \<lparr>RuleGroups = filtered\<rparr>))))"

section \<open>filterAlerts\<close>

text \<open>The loop over \<^verbatim>\<open>data.Alerts\<close> (lines 295 to 299); reading a nil alert panics.\<close>

fun filterAlerts_alerts ::
  "routes \<Rightarrow> (string \<Rightarrow> bool) \<Rightarrow> alert option list \<Rightarrow> alert option list \<Rightarrow>
   alert option list outcome" where
  "filterAlerts_alerts r m [] filtered = Return filtered"
| "filterAlerts_alerts r m (None # alerts) filtered = Panic"
| "filterAlerts_alerts r m (Some a # alerts) filtered =
     (let lval = Labels_Get (alert_Labels a) (label r) in
      if lval \<noteq> '''' \<and> m lval then filterAlerts_alerts r m alerts (filtered @ [Some a])
      else filterAlerts_alerts r m alerts filtered)"

definition filterAlerts ::
  "'v stdlib \<Rightarrow> routes \<Rightarrow> string list \<Rightarrow> request \<Rightarrow> apiResponse \<Rightarrow>
   (goerror + alertsData) outcome" where
  "filterAlerts lib r lvalues req resp =
     (case json_Unmarshal_alertsData lib (Data resp) of
        Inl err \<Rightarrow> Return (Inl (fmt_Errorf ''can't decode alerts data: %w'' [] [err]))
      | Inr data \<Rightarrow>
          (case newLabelMatcher r lvalues of
             Inl err \<Rightarrow> Return (Inl err)
           | Inr m \<Rightarrow>
               (case filterAlerts_alerts r m (Alerts data) [] of
                  Panic \<Rightarrow> Panic
                | Return filtered \<Rightarrow> Return (Inr \<lparr>Alerts = filtered\<rparr>))))"

section \<open>Stand-ins for the library and sample documents\<close>

text \<open>
  The theorems below hold for every behaviour of the library. To run the functions on
  a sample document, \<open>stub_stdlib\<close> is a library that serves one prepared document:
  \<open>env\<close> is what decoding the body gives, \<open>groups\<close> what decoding the rules payload
  gives, \<open>rules\<close> maps the bytes of a rule to its \<^verbatim>\<open>type\<close> and its decoded value,
  \<open>alerts\<close> is what decoding the alerts payload gives. Its gzip reader refuses a closed
  body only.
\<close>

definition stub_stdlib ::
  "(goerror + apiResponse) \<Rightarrow> (goerror + rawGroup option list) \<Rightarrow>
   (string \<times> string \<times> rule) list \<Rightarrow> (goerror + alertsData) \<Rightarrow> 'v stdlib" where
  "stub_stdlib env groups rules alerts =
     \<lparr>gzip_NewReader =
        (\<lambda>b. if b = Closed then Inl (foreign_error ''gzip: invalid header'')
             else Inr (GzipReader b)),
      json_Decode = (\<lambda>rd. env),
      json_Unmarshal_ruleType =
        (\<lambda>b. case map_of rules b of
               None \<Rightarrow> Inl (foreign_error ''unexpected end of JSON input'')
             | Some (t, ru) \<Rightarrow> Inr t),
      json_Unmarshal_alertingRule =
        (\<lambda>b. case map_of rules b of
               None \<Rightarrow> Inl (foreign_error ''unexpected end of JSON input'')
             | Some (t, ru) \<Rightarrow>
                 (case rule_alertingRule ru of
                    None \<Rightarrow> Inl (foreign_error ''cannot unmarshal'')
                  | Some a \<Rightarrow> Inr a)),
      json_Unmarshal_recordingRule =
        (\<lambda>b. case map_of rules b of
               None \<Rightarrow> Inl (foreign_error ''unexpected end of JSON input'')
             | Some (t, ru) \<Rightarrow>
                 (case rule_recordingRule ru of
                    None \<Rightarrow> Inl (foreign_error ''cannot unmarshal'')
                  | Some rr \<Rightarrow> Inr rr)),
      json_groups = (\<lambda>b. groups),
      json_Unmarshal_alertsData = (\<lambda>b. alerts),
      json_Marshal = (\<lambda>v. Inr ''payload''),
      json_Encode = (\<lambda>a. Inr (Status a @ '' '' @ Data a))\<rparr>"

text \<open>A matcher that accepts exactly the allowed values.\<close>

definition example_routes :: "bool \<Rightarrow> routes" where
  "example_routes flag =
     \<lparr>label = ''namespace'', rulesWithActiveAlerts = flag,
      newLabelMatcher = (\<lambda>lvalues. Inr (\<lambda>v. v \<in> set lvalues))\<rparr>"

definition example_alert :: "string \<Rightarrow> string \<Rightarrow> alert" where
  "example_alert ns st =
     \<lparr>alert_Labels = [(''alertname'', ''Down''), (''namespace'', ns)],
      alert_Annotations = [(''summary'', ''down in '' @ ns)],
      alert_State = st, alert_ActiveAt = None, alert_KeepFiringSince = None,
      alert_Value = ''1''\<rparr>"

definition example_alertingRule :: "string \<Rightarrow> alert option list \<Rightarrow> alertingRule" where
  "example_alertingRule ns alerts =
     \<lparr>ar_State = ''firing'', ar_Name = ''Down'', ar_Query = ''up == 0'',
      ar_Duration = 60, ar_KeepFiringFor = 0,
      ar_Labels = [(''namespace'', ns), (''severity'', ''page'')],
      ar_Annotations = [(''runbook'', ''rule of '' @ ns)],
      ar_Alerts = alerts, ar_Health = ''ok'', ar_LastError = [],
      ar_EvaluationTime = 0, ar_LastEvaluation = ''2024-01-01T00:00:00Z'',
      ar_Type = ''alerting''\<rparr>"

definition example_recordingRule :: "string \<Rightarrow> recordingRule" where
  "example_recordingRule ns =
     \<lparr>rr_Name = ''job:up:sum'', rr_Query = ''sum(up)'',
      rr_Labels = [(''namespace'', ns)], rr_Health = ''ok'', rr_LastError = [],
      rr_EvaluationTime = 0, rr_LastEvaluation = ''2024-01-01T00:00:00Z'',
      rr_Type = ''recording''\<rparr>"

definition example_response :: "int \<Rightarrow> Header \<Rightarrow> response" where
  "example_response code h =
     \<lparr>StatusCode = code, Header = h, Body = Open ''bytes'', Uncompressed = False,
      Request = \<lparr>Context = Some [''a'']\<rparr>\<rparr>"

definition example_envelope :: "string \<Rightarrow> apiResponse" where
  "example_envelope st =
     \<lparr>Status = st, Data = ''data'', ErrorType = [], Error = [], Warnings = []\<rparr>"

text \<open>
  A sample rules document of two groups, for the allowed value \<open>a\<close>. The bytes of a
  rule are abbreviated to a name. Rule \<open>r1\<close> is an alerting rule of namespace \<open>a\<close> with
  one alert of namespace \<open>b\<close>; \<open>r2\<close> is a recording rule of namespace \<open>b\<close>; \<open>r3\<close> is
  an alerting rule of namespace \<open>b\<close> with alerts of namespaces \<open>a\<close> (pending),
  \<open>b\<close> (firing) and \<open>a\<close> (firing); \<open>r4\<close> has the type \<open>unknown\<close>.
\<close>

definition example_r1 :: rule where
  "example_r1 =
     \<lparr>rule_alertingRule =
        Some (example_alertingRule ''a'' [Some (example_alert ''b'' ''firing'')]),
      rule_recordingRule = None\<rparr>"

definition example_r2 :: rule where
  "example_r2 =
     \<lparr>rule_alertingRule = None, rule_recordingRule = Some (example_recordingRule ''b'')\<rparr>"

definition example_r3 :: rule where
  "example_r3 =
     \<lparr>rule_alertingRule =
        Some (example_alertingRule ''b''
                [Some (example_alert ''a'' ''pending''), Some (example_alert ''b'' ''firing''),
                 Some (example_alert ''a'' ''firing'')]),
      rule_recordingRule = None\<rparr>"

definition example_rule_table :: "(string \<times> string \<times> rule) list" where
  "example_rule_table =
     [(''r1'', ''alerting'', example_r1), (''r2'', ''recording'', example_r2),
      (''r3'', ''alerting'', example_r3),
      (''r4'', ''unknown'', \<lparr>rule_alertingRule = None, rule_recordingRule = None\<rparr>)]"

definition example_rawGroup :: "string \<Rightarrow> string list \<Rightarrow> rawGroup" where
  "example_rawGroup name rules =
     \<lparr>raw_Name = name, raw_File = ''rules.yaml'', raw_Rules = rules, raw_Interval = 30\<rparr>"

definition example_ruleGroup :: "string \<Rightarrow> rule list \<Rightarrow> ruleGroup" where
  "example_ruleGroup name rules =
     \<lparr>rg_Name = name, rg_File = ''rules.yaml'', rg_Rules = rules, rg_Interval = 30\<rparr>"

definition example_alerts :: "alert option list" where
  "example_alerts =
     [Some (example_alert ''a'' ''firing''), Some (example_alert ''b'' ''firing''),
      Some (example_alert [] ''firing''), Some (example_alert ''a'' ''pending'')]"

definition example_stdlib :: "'v stdlib" where
  "example_stdlib =
     stub_stdlib (Inr (example_envelope ''success''))
       (Inr [Some (example_rawGroup ''g1'' [''r1'', ''r2'', ''r3'']),
             Some (example_rawGroup ''g2'' [''r2''])])
       example_rule_table (Inr \<lparr>Alerts = example_alerts\<rparr>)"

definition example_rulesData :: rulesData where
  "example_rulesData =
     \<lparr>RuleGroups =
        [Some (example_ruleGroup ''g1'' [example_r1, example_r2, example_r3]),
         Some (example_ruleGroup ''g2'' [example_r2])]\<rparr>"

definition example_r3_partial :: rule where
  "example_r3_partial =
     \<lparr>rule_alertingRule =
        Some (example_alertingRule ''b''
                [Some (example_alert ''a'' ''pending''), Some (example_alert ''a'' ''firing'')]),
      rule_recordingRule = None\<rparr>"

definition example_stdlib_r4 :: "'v stdlib" where
  "example_stdlib_r4 =
     stub_stdlib (Inr (example_envelope ''success''))
       (Inr [Some (example_rawGroup ''g1'' [''r1'', ''r4''])]) example_rule_table
       (Inr \<lparr>Alerts = []\<rparr>)"

definition example_stdlib_status :: "string \<Rightarrow> 'v stdlib" where
  "example_stdlib_status st =
     stub_stdlib (Inr (example_envelope st)) (Inr []) [] (Inr \<lparr>Alerts = []\<rparr>)"

section \<open>Notions used in the statements\<close>

text \<open>
  The test of lines 227 and 296 (line 238 is its negation) on a label set: the value
  of the enforced label is not empty and the matcher accepts it.
\<close>

abbreviation accepted :: "routes \<Rightarrow> (string \<Rightarrow> bool) \<Rightarrow> Labels \<Rightarrow> bool" where
  "accepted r m ls \<equiv> Labels_Get ls (label r) \<noteq> '''' \<and> m (Labels_Get ls (label r))"

text \<open>
  The \<^verbatim>\<open>switch ar.State\<close> of lines 259 to 266 as a function of the aggregate state
  and of the state of the alert just appended.
\<close>

definition switch_State :: "string \<Rightarrow> string \<Rightarrow> string" where
  "switch_State s st =
     (if s = ''pending'' then (if st = ''firing'' then st else s)
      else if s = '''' then st else s)"

text \<open>What the rules loop appends for one rule, and the groups loop for one group.\<close>

definition filterRules_rule :: "routes \<Rightarrow> (string \<Rightarrow> bool) \<Rightarrow> rule \<Rightarrow> rule list outcome" where
  "filterRules_rule r m rgr = filterRules_rules r m [rgr] []"

definition filterRules_group ::
  "routes \<Rightarrow> (string \<Rightarrow> bool) \<Rightarrow> ruleGroup option \<Rightarrow> ruleGroup option list outcome" where
  "filterRules_group r m g = filterRules_groups r m [g] []"

section \<open>Properties\<close>

subsection \<open>The loops of filterRules\<close>

lemma filterRules_alerts_nil_Panic:
  "None \<in> set alerts \<Longrightarrow> filterRules_alerts r m p alerts ar = Panic"
proof (induction alerts arbitrary: ar)
  case Nil
  then show ?case by simp
next
  case (Cons x xs)
  show ?case
  proof (cases x)
    case None
    then show ?thesis by simp
  next
    case (Some a)
    with Cons.prems have "None \<in> set xs" by simp
    then show ?thesis unfolding Some by (simp add: Let_def Cons.IH)
  qed
qed

lemma filterRules_alerts_Return_nonnil:
  assumes res: "filterRules_alerts r m p alerts ar = Return res" and a: "a \<in> set alerts"
  shows "a \<noteq> None"
proof
  assume "a = None"
  with a have "None \<in> set alerts" by simp
  from filterRules_alerts_nil_Panic [OF this, of r m p ar] res show False by simp
qed

lemma filterRules_alerts_Some:
  "\<forall>a\<in>set alerts. a \<noteq> None \<Longrightarrow>
   filterRules_alerts r m p alerts (Some x) =
     Return (Some (x\<lparr>ar_State :=
                       foldl switch_State (ar_State x)
                         (map (\<lambda>a. alert_State (the a))
                            (filter (\<lambda>a. accepted r m (alert_Labels (the a))) alerts)),
                     ar_Alerts :=
                       ar_Alerts x @ filter (\<lambda>a. accepted r m (alert_Labels (the a))) alerts\<rparr>))"
proof (induction alerts arbitrary: x)
  case Nil
  show ?case by simp
next
  case (Cons y ys)
  then obtain a where y: "y = Some a" by auto
  from Cons.prems have rest: "\<forall>a\<in>set ys. a \<noteq> None" by simp
  show ?case unfolding y
    by (simp add: Let_def Cons.IH [OF rest] switch_State_def)
qed

lemma filterRules_alerts_None:
  "\<forall>a\<in>set alerts. a \<noteq> None \<Longrightarrow>
   filterRules_alerts r m p alerts None =
     Return
       (if filter (\<lambda>a. accepted r m (alert_Labels (the a))) alerts = [] then None
        else
          Some \<lparr>ar_State =
                   foldl switch_State ''''
                     (map (\<lambda>a. alert_State (the a))
                        (filter (\<lambda>a. accepted r m (alert_Labels (the a))) alerts)),
                ar_Name = ar_Name p,
                ar_Query = ar_Query p,
                ar_Duration = ar_Duration p,
                ar_KeepFiringFor = ar_KeepFiringFor p,
                ar_Labels = ar_Labels p,
                ar_Annotations = ar_Annotations p,
                ar_Alerts = filter (\<lambda>a. accepted r m (alert_Labels (the a))) alerts,
                ar_Health = ar_Health p,
                ar_LastError = ar_LastError p,
                ar_EvaluationTime = ar_EvaluationTime p,
                ar_LastEvaluation = ar_LastEvaluation p,
                ar_Type = ar_Type p\<rparr>)"
proof (induction alerts)
  case Nil
  show ?case by simp
next
  case (Cons y ys)
  then obtain a where y: "y = Some a" by auto
  from Cons.prems have rest: "\<forall>a\<in>set ys. a \<noteq> None" by simp
  show ?case
  proof (cases "accepted r m (alert_Labels a)")
    case False
    then show ?thesis unfolding y using Cons.IH [OF rest] by (simp add: Let_def)
  next
    case True
    then show ?thesis unfolding y
      by (simp add: Let_def filterRules_alerts_Some [OF rest] switch_State_def Labels_Copy_def)
  qed
qed

lemma filterRules_rule_eq:
  "filterRules_rule r m rgr =
     (case rule_Labels rgr of
        Panic \<Rightarrow> Panic
      | Return ls \<Rightarrow>
          if accepted r m ls then Return [rgr]
          else if \<not> rulesWithActiveAlerts r \<or> rule_alertingRule rgr = None then Return []
          else
            (case filterRules_alerts r m (the (rule_alertingRule rgr))
                    (ar_Alerts (the (rule_alertingRule rgr))) None of
               Panic \<Rightarrow> Panic
             | Return None \<Rightarrow> Return []
             | Return (Some ar) \<Rightarrow>
                 Return [\<lparr>rule_alertingRule = Some ar, rule_recordingRule = None\<rparr>]))"
  by (simp add: filterRules_rule_def Let_def split: outcome.splits option.splits)

lemma filterRules_rules_Cons:
  "filterRules_rules r m (rgr # rest) acc =
     (case filterRules_rule r m rgr of
        Panic \<Rightarrow> Panic
      | Return c \<Rightarrow> filterRules_rules r m rest (acc @ c))"
proof (cases "rule_Labels rgr")
  case Panic
  then show ?thesis by (simp add: filterRules_rule_eq)
next
  case (Return ls)
  show ?thesis
  proof (cases "accepted r m ls")
    case True
    with Return show ?thesis by (simp add: filterRules_rule_eq Let_def)
  next
    case no: False
    show ?thesis
    proof (cases "\<not> rulesWithActiveAlerts r \<or> rule_alertingRule rgr = None")
      case True
      with Return no show ?thesis by (auto simp add: filterRules_rule_eq Let_def)
    next
      case False
      show ?thesis
      proof (cases "filterRules_alerts r m (the (rule_alertingRule rgr))
                      (ar_Alerts (the (rule_alertingRule rgr))) None")
        case Panic
        with Return no False show ?thesis by (auto simp add: filterRules_rule_eq Let_def)
      next
        case res: (Return x)
        with Return no False show ?thesis
          by (cases x) (auto simp add: filterRules_rule_eq Let_def)
      qed
    qed
  qed
qed

lemma filterRules_rules_acc:
  "filterRules_rules r m rs acc =
     (case filterRules_rules r m rs [] of Panic \<Rightarrow> Panic | Return out \<Rightarrow> Return (acc @ out))"
proof (induction rs arbitrary: acc)
  case Nil
  show ?case by simp
next
  case (Cons x xs)
  show ?case
  proof (cases "filterRules_rule r m x")
    case Panic
    then show ?thesis by (simp only: filterRules_rules_Cons outcome.case)
  next
    case (Return c)
    have "filterRules_rules r m (x # xs) acc = filterRules_rules r m xs (acc @ c)"
      by (simp only: filterRules_rules_Cons Return outcome.case)
    also have "\<dots> = (case filterRules_rules r m xs [] of
                       Panic \<Rightarrow> Panic | Return out \<Rightarrow> Return ((acc @ c) @ out))"
      by (rule Cons.IH)
    finally have lhs: "filterRules_rules r m (x # xs) acc =
        (case filterRules_rules r m xs [] of
           Panic \<Rightarrow> Panic | Return out \<Rightarrow> Return ((acc @ c) @ out))" .
    have "filterRules_rules r m (x # xs) [] = filterRules_rules r m xs c"
      by (simp only: filterRules_rules_Cons Return outcome.case append_Nil)
    also have "\<dots> = (case filterRules_rules r m xs [] of
                       Panic \<Rightarrow> Panic | Return out \<Rightarrow> Return (c @ out))"
      by (rule Cons.IH)
    finally have rhs: "filterRules_rules r m (x # xs) [] =
        (case filterRules_rules r m xs [] of
           Panic \<Rightarrow> Panic | Return out \<Rightarrow> Return (c @ out))" .
    show ?thesis unfolding lhs rhs by (cases "filterRules_rules r m xs []") simp_all
  qed
qed

lemma filterRules_rules_append:
  "filterRules_rules r m (xs @ ys) acc =
     (case filterRules_rules r m xs acc of
        Panic \<Rightarrow> Panic
      | Return acc' \<Rightarrow> filterRules_rules r m ys acc')"
proof (induction xs arbitrary: acc)
  case Nil
  show ?case by simp
next
  case (Cons x xs)
  show ?case
    by (cases "filterRules_rule r m x")
       (simp_all only: append_Cons filterRules_rules_Cons outcome.case Cons.IH)
qed

lemma filterRules_rules_split:
  "filterRules_rules r m (pre @ rgr # post) [] =
     (case filterRules_rules r m pre [] of
        Panic \<Rightarrow> Panic
      | Return o1 \<Rightarrow>
          (case filterRules_rule r m rgr of
             Panic \<Rightarrow> Panic
           | Return c \<Rightarrow>
               (case filterRules_rules r m post [] of
                  Panic \<Rightarrow> Panic
                | Return o2 \<Rightarrow> Return (o1 @ c @ o2))))"
proof (cases "filterRules_rules r m pre []")
  case Panic
  then show ?thesis by (simp only: filterRules_rules_append outcome.case)
next
  case o1: (Return o1)
  show ?thesis
  proof (cases "filterRules_rule r m rgr")
    case Panic
    with o1 show ?thesis
      by (simp only: filterRules_rules_append filterRules_rules_Cons outcome.case)
  next
    case c: (Return c)
    have "filterRules_rules r m (pre @ rgr # post) [] = filterRules_rules r m post (o1 @ c)"
      by (simp only: filterRules_rules_append filterRules_rules_Cons o1 c outcome.case)
    also have "\<dots> = (case filterRules_rules r m post [] of
                        Panic \<Rightarrow> Panic | Return o2 \<Rightarrow> Return ((o1 @ c) @ o2))"
      by (rule filterRules_rules_acc)
    finally show ?thesis using o1 c by (simp split: outcome.splits)
  qed
qed

lemma filterRules_rules_member:
  "filterRules_rules r m rs [] = Return out \<Longrightarrow> ru \<in> set out \<Longrightarrow>
   \<exists>rgr\<in>set rs. \<exists>c. filterRules_rule r m rgr = Return c \<and> ru \<in> set c"
proof (induction rs arbitrary: out)
  case Nil
  then show ?case by simp
next
  case (Cons x xs)
  from Cons.prems(1) obtain c where c: "filterRules_rule r m x = Return c"
    and rest: "filterRules_rules r m xs c = Return out"
    by (cases "filterRules_rule r m x") (simp_all only: filterRules_rules_Cons outcome.case append_Nil outcome.distinct)
  from rest obtain o2 where o2: "filterRules_rules r m xs [] = Return o2" and out: "out = c @ o2"
    by (subst (asm) filterRules_rules_acc) (auto split: outcome.splits)
  from Cons.prems(2) out have "ru \<in> set c \<or> ru \<in> set o2" by simp
  then show ?case
  proof
    assume "ru \<in> set c"
    with c show ?thesis by auto
  next
    assume "ru \<in> set o2"
    from Cons.IH [OF o2 this] show ?thesis by auto
  qed
qed

lemma filterRules_rule_member:
  assumes "filterRules_rule r m rgr = Return c" and "ru \<in> set c"
  shows "(ru = rgr \<and> (\<exists>ls. rule_Labels ru = Return ls \<and> accepted r m ls)) \<or>
         (rulesWithActiveAlerts r \<and>
          (\<exists>p ar. rule_alertingRule rgr = Some p \<and>
             ru = \<lparr>rule_alertingRule = Some ar, rule_recordingRule = None\<rparr> \<and>
             \<not> accepted r m (ar_Labels ar) \<and> ar_Alerts ar \<noteq> [] \<and>
             (\<forall>a\<in>set (ar_Alerts ar). \<exists>a'. a = Some a' \<and> accepted r m (alert_Labels a'))))"
proof (cases "rule_Labels rgr")
  case Panic
  with assms show ?thesis by (simp add: filterRules_rule_eq)
next
  case (Return ls)
  show ?thesis
  proof (cases "accepted r m ls")
    case True
    with Return assms show ?thesis by (auto simp add: filterRules_rule_eq)
  next
    case no: False
    show ?thesis
    proof (cases "\<not> rulesWithActiveAlerts r \<or> rule_alertingRule rgr = None")
      case True
      with Return no assms show ?thesis by (auto simp add: filterRules_rule_eq)
    next
      case False
      then obtain p where flag: "rulesWithActiveAlerts r" and p: "rule_alertingRule rgr = Some p"
        by auto
      from Return p have ls: "ls = ar_Labels p" by (simp add: rule_Labels_def)
      show ?thesis
      proof (cases "filterRules_alerts r m p (ar_Alerts p) None")
        case Panic
        with Return no flag p assms show ?thesis by (auto simp add: filterRules_rule_eq)
      next
        case res: (Return x)
        have nn: "\<forall>a\<in>set (ar_Alerts p). a \<noteq> None"
          using filterRules_alerts_Return_nonnil [OF res] by blast
        show ?thesis
        proof (cases x)
          case None
          with res Return no flag p assms show ?thesis by (auto simp add: filterRules_rule_eq)
        next
          case (Some ar)
          with res Return no flag p assms
          have ru: "ru = \<lparr>rule_alertingRule = Some ar, rule_recordingRule = None\<rparr>"
            by (auto simp add: filterRules_rule_eq)
          from res Some filterRules_alerts_None [OF nn, of r m p]
          have ne: "filter (\<lambda>a. accepted r m (alert_Labels (the a))) (ar_Alerts p) \<noteq> []"
            and al: "ar_Alerts ar = filter (\<lambda>a. accepted r m (alert_Labels (the a))) (ar_Alerts p)"
            and lb: "ar_Labels ar = ar_Labels p"
            by (auto split: if_splits)
          have "\<forall>a\<in>set (ar_Alerts ar). \<exists>a'. a = Some a' \<and> accepted r m (alert_Labels a')"
            unfolding al using nn by auto
          with ru ne al lb no ls flag p show ?thesis by auto
        qed
      qed
    qed
  qed
qed

lemma filterRules_group_eq:
  "filterRules_group r m g =
     (case g of
        None \<Rightarrow> Panic
      | Some rg \<Rightarrow>
          (case filterRules_rules r m (rg_Rules rg) [] of
             Panic \<Rightarrow> Panic
           | Return rules \<Rightarrow>
               Return (if rules = [] then [] else [Some (rg\<lparr>rg_Rules := rules\<rparr>)])))"
  by (simp add: filterRules_group_def split: option.splits outcome.splits)

lemma filterRules_groups_Cons:
  "filterRules_groups r m (g # rest) acc =
     (case filterRules_group r m g of
        Panic \<Rightarrow> Panic
      | Return c \<Rightarrow> filterRules_groups r m rest (acc @ c))"
  by (simp add: filterRules_group_eq split: option.splits outcome.splits)

lemma filterRules_groups_acc:
  "filterRules_groups r m gs acc =
     (case filterRules_groups r m gs [] of Panic \<Rightarrow> Panic | Return out \<Rightarrow> Return (acc @ out))"
proof (induction gs arbitrary: acc)
  case Nil
  show ?case by simp
next
  case (Cons x xs)
  show ?case
  proof (cases "filterRules_group r m x")
    case Panic
    then show ?thesis by (simp only: filterRules_groups_Cons outcome.case)
  next
    case (Return c)
    have "filterRules_groups r m (x # xs) acc = filterRules_groups r m xs (acc @ c)"
      by (simp only: filterRules_groups_Cons Return outcome.case)
    also have "\<dots> = (case filterRules_groups r m xs [] of
                       Panic \<Rightarrow> Panic | Return out \<Rightarrow> Return ((acc @ c) @ out))"
      by (rule Cons.IH)
    finally have lhs: "filterRules_groups r m (x # xs) acc =
        (case filterRules_groups r m xs [] of
           Panic \<Rightarrow> Panic | Return out \<Rightarrow> Return ((acc @ c) @ out))" .
    have "filterRules_groups r m (x # xs) [] = filterRules_groups r m xs c"
      by (simp only: filterRules_groups_Cons Return outcome.case append_Nil)
    also have "\<dots> = (case filterRules_groups r m xs [] of
                       Panic \<Rightarrow> Panic | Return out \<Rightarrow> Return (c @ out))"
      by (rule Cons.IH)
    finally have rhs: "filterRules_groups r m (x # xs) [] =
        (case filterRules_groups r m xs [] of
           Panic \<Rightarrow> Panic | Return out \<Rightarrow> Return (c @ out))" .
    show ?thesis unfolding lhs rhs by (cases "filterRules_groups r m xs []") simp_all
  qed
qed

lemma filterRules_groups_append:
  "filterRules_groups r m (xs @ ys) acc =
     (case filterRules_groups r m xs acc of
        Panic \<Rightarrow> Panic
      | Return acc' \<Rightarrow> filterRules_groups r m ys acc')"
proof (induction xs arbitrary: acc)
  case Nil
  show ?case by simp
next
  case (Cons x xs)
  show ?case
    by (cases "filterRules_group r m x")
       (simp_all only: append_Cons filterRules_groups_Cons outcome.case Cons.IH)
qed

lemma filterRules_groups_split:
  "filterRules_groups r m (gpre @ g # gpost) [] =
     (case filterRules_groups r m gpre [] of
        Panic \<Rightarrow> Panic
      | Return opre \<Rightarrow>
          (case filterRules_group r m g of
             Panic \<Rightarrow> Panic
           | Return c \<Rightarrow>
               (case filterRules_groups r m gpost [] of
                  Panic \<Rightarrow> Panic
                | Return opost \<Rightarrow> Return (opre @ c @ opost))))"
proof (cases "filterRules_groups r m gpre []")
  case Panic
  then show ?thesis by (simp only: filterRules_groups_append outcome.case)
next
  case o1: (Return o1)
  show ?thesis
  proof (cases "filterRules_group r m g")
    case Panic
    with o1 show ?thesis
      by (simp only: filterRules_groups_append filterRules_groups_Cons outcome.case)
  next
    case c: (Return c)
    have "filterRules_groups r m (gpre @ g # gpost) [] = filterRules_groups r m gpost (o1 @ c)"
      by (simp only: filterRules_groups_append filterRules_groups_Cons o1 c outcome.case)
    also have "\<dots> = (case filterRules_groups r m gpost [] of
                        Panic \<Rightarrow> Panic | Return o2 \<Rightarrow> Return ((o1 @ c) @ o2))"
      by (rule filterRules_groups_acc)
    finally show ?thesis using o1 c by (simp split: outcome.splits)
  qed
qed

lemma filterRules_groups_member:
  "filterRules_groups r m gs [] = Return out \<Longrightarrow> g \<in> set out \<Longrightarrow>
   \<exists>g0\<in>set gs. \<exists>c. filterRules_group r m g0 = Return c \<and> g \<in> set c"
proof (induction gs arbitrary: out)
  case Nil
  then show ?case by simp
next
  case (Cons x xs)
  from Cons.prems(1) obtain c where c: "filterRules_group r m x = Return c"
    and rest: "filterRules_groups r m xs c = Return out"
    by (cases "filterRules_group r m x") (simp_all only: filterRules_groups_Cons outcome.case append_Nil outcome.distinct)
  from rest obtain o2 where o2: "filterRules_groups r m xs [] = Return o2" and out: "out = c @ o2"
    by (subst (asm) filterRules_groups_acc) (auto split: outcome.splits)
  from Cons.prems(2) out have "g \<in> set c \<or> g \<in> set o2" by simp
  then show ?case
  proof
    assume "g \<in> set c"
    with c show ?thesis by auto
  next
    assume "g \<in> set o2"
    from Cons.IH [OF o2 this] show ?thesis by auto
  qed
qed

lemma filterRules_group_member:
  assumes "filterRules_group r m g0 = Return c" and "g \<in> set c"
  shows "\<exists>rg rules. g0 = Some rg \<and> filterRules_rules r m (rg_Rules rg) [] = Return rules \<and>
           rules \<noteq> [] \<and> g = Some (rg\<lparr>rg_Rules := rules\<rparr>)"
  using assms
  by (auto simp add: filterRules_group_eq split: option.splits outcome.splits if_splits)

lemma filterRules_groups_concat:
  "filterRules_groups r m gs [] = Return out \<Longrightarrow>
   out = concat (map (\<lambda>g. case filterRules_rules r m (rg_Rules (the g)) [] of
                             Panic \<Rightarrow> []
                           | Return rules \<Rightarrow>
                               if rules = [] then []
                               else [Some ((the g)\<lparr>rg_Rules := rules\<rparr>)]) gs)"
proof (induction gs arbitrary: out)
  case Nil
  then show ?case by simp
next
  case (Cons x xs)
  from Cons.prems obtain c where c: "filterRules_group r m x = Return c"
    and rest: "filterRules_groups r m xs c = Return out"
    by (cases "filterRules_group r m x")
       (simp_all only: filterRules_groups_Cons outcome.case append_Nil outcome.distinct)
  from rest obtain o2 where o2: "filterRules_groups r m xs [] = Return o2" and out: "out = c @ o2"
    by (subst (asm) filterRules_groups_acc) (auto split: outcome.splits)
  from c have "c = (case filterRules_rules r m (rg_Rules (the x)) [] of
                      Panic \<Rightarrow> []
                    | Return rules \<Rightarrow>
                        if rules = [] then [] else [Some ((the x)\<lparr>rg_Rules := rules\<rparr>)])"
    by (auto simp add: filterRules_group_eq split: option.splits outcome.splits)
  with out Cons.IH [OF o2] show ?case by simp
qed

lemma filterRules_decoded:
  "json_Unmarshal_rulesData lib (Data resp) = Inr rgs \<Longrightarrow>
   newLabelMatcher r lvalues = Inr m \<Longrightarrow>
   filterRules lib r lvalues req resp =
     (case filterRules_groups r m (RuleGroups rgs) [] of
        Panic \<Rightarrow> Panic
      | Return filtered \<Rightarrow> Return (Inr \<lparr>RuleGroups = filtered\<rparr>))"
  by (simp add: filterRules_def)

lemma filterRules_Return_Inr:
  assumes "filterRules lib r lvalues req resp = Return (Inr out)"
    and "newLabelMatcher r lvalues = Inr m"
  shows "\<exists>rgs. json_Unmarshal_rulesData lib (Data resp) = Inr rgs \<and>
               filterRules_groups r m (RuleGroups rgs) [] = Return (RuleGroups out)"
  using assms by (auto simp add: filterRules_def split: sum.splits outcome.splits)

lemma filterRules_around:
  assumes dec: "json_Unmarshal_rulesData lib (Data resp) = Inr rgs"
    and mat: "newLabelMatcher r lvalues = Inr m"
    and gs: "RuleGroups rgs = gpre @ Some g # gpost"
    and rs: "rg_Rules g = pre @ rgr # post"
  shows "filterRules lib r lvalues req resp =
     (case filterRules_groups r m gpre [] of
        Panic \<Rightarrow> Panic
      | Return opre \<Rightarrow>
          (case filterRules_rules r m pre [] of
             Panic \<Rightarrow> Panic
           | Return o1 \<Rightarrow>
               (case filterRules_rule r m rgr of
                  Panic \<Rightarrow> Panic
                | Return c \<Rightarrow>
                    (case filterRules_rules r m post [] of
                       Panic \<Rightarrow> Panic
                     | Return o2 \<Rightarrow>
                         (case filterRules_groups r m gpost [] of
                            Panic \<Rightarrow> Panic
                          | Return opost \<Rightarrow>
                              Return (Inr \<lparr>RuleGroups =
                                opre @
                                (if o1 @ c @ o2 = [] then []
                                 else [Some (g\<lparr>rg_Rules := o1 @ c @ o2\<rparr>)]) @
                                opost\<rparr>))))))"
proof -
  have grp: "filterRules_group r m (Some g) =
      (case filterRules_rules r m pre [] of
         Panic \<Rightarrow> Panic
       | Return o1 \<Rightarrow>
           (case filterRules_rule r m rgr of
              Panic \<Rightarrow> Panic
            | Return c \<Rightarrow>
                (case filterRules_rules r m post [] of
                   Panic \<Rightarrow> Panic
                 | Return o2 \<Rightarrow>
                     Return (if o1 @ c @ o2 = [] then []
                             else [Some (g\<lparr>rg_Rules := o1 @ c @ o2\<rparr>)]))))"
    by (simp add: filterRules_group_eq rs filterRules_rules_split split: outcome.splits)
  show ?thesis
    unfolding filterRules_decoded [OF dec mat] gs filterRules_groups_split grp
    by (simp split: outcome.splits)
qed

lemma filterRules_output_groups:
  assumes out: "filterRules lib r lvalues req resp = Return (Inr out)"
    and mat: "newLabelMatcher r lvalues = Inr m"
    and g: "g \<in> set (RuleGroups out)"
  shows "\<exists>g'. g = Some g' \<and> rg_Rules g' \<noteq> [] \<and>
           (\<forall>ru\<in>set (rg_Rules g').
              (\<exists>ls. rule_Labels ru = Return ls \<and> accepted r m ls) \<or>
              (rulesWithActiveAlerts r \<and>
               (\<exists>ar. ru = \<lparr>rule_alertingRule = Some ar, rule_recordingRule = None\<rparr> \<and>
                  \<not> accepted r m (ar_Labels ar) \<and> ar_Alerts ar \<noteq> [] \<and>
                  (\<forall>a\<in>set (ar_Alerts ar).
                     \<exists>a'. a = Some a' \<and> accepted r m (alert_Labels a')))))"
proof -
  from filterRules_Return_Inr [OF out mat] obtain rgs :: rulesData
    where grp: "filterRules_groups r m (RuleGroups rgs) [] = Return (RuleGroups out)" by blast
  from filterRules_groups_member [OF grp g] obtain g0 c
    where c: "filterRules_group r m g0 = Return c" and gc: "g \<in> set c" by blast
  from filterRules_group_member [OF c gc] obtain rg rules
    where rules: "filterRules_rules r m (rg_Rules rg) [] = Return rules"
      and ne: "rules \<noteq> []" and geq: "g = Some (rg\<lparr>rg_Rules := rules\<rparr>)" by blast
  have "\<forall>ru\<in>set rules.
          (\<exists>ls. rule_Labels ru = Return ls \<and> accepted r m ls) \<or>
          (rulesWithActiveAlerts r \<and>
           (\<exists>ar. ru = \<lparr>rule_alertingRule = Some ar, rule_recordingRule = None\<rparr> \<and>
              \<not> accepted r m (ar_Labels ar) \<and> ar_Alerts ar \<noteq> [] \<and>
              (\<forall>a\<in>set (ar_Alerts ar). \<exists>a'. a = Some a' \<and> accepted r m (alert_Labels a'))))"
  proof
    fix ru
    assume "ru \<in> set rules"
    from filterRules_rules_member [OF rules this] obtain rgr c'
      where c': "filterRules_rule r m rgr = Return c'" and ru: "ru \<in> set c'" by blast
    from filterRules_rule_member [OF c' ru]
    show "(\<exists>ls. rule_Labels ru = Return ls \<and> accepted r m ls) \<or>
          (rulesWithActiveAlerts r \<and>
           (\<exists>ar. ru = \<lparr>rule_alertingRule = Some ar, rule_recordingRule = None\<rparr> \<and>
              \<not> accepted r m (ar_Labels ar) \<and> ar_Alerts ar \<noteq> [] \<and>
              (\<forall>a\<in>set (ar_Alerts ar). \<exists>a'. a = Some a' \<and> accepted r m (alert_Labels a'))))"
      by blast
  qed
  with ne geq show ?thesis by simp
qed

subsection \<open>The loop of filterAlerts\<close>

lemma filterAlerts_alerts_nil_Panic:
  "None \<in> set alerts \<Longrightarrow> filterAlerts_alerts r m alerts filtered = Panic"
proof (induction alerts arbitrary: filtered)
  case Nil
  then show ?case by simp
next
  case (Cons x xs)
  show ?case
  proof (cases x)
    case None
    then show ?thesis by simp
  next
    case (Some a)
    with Cons.prems have "None \<in> set xs" by simp
    then show ?thesis unfolding Some by (simp add: Let_def Cons.IH)
  qed
qed

lemma filterAlerts_alerts_filter:
  "\<forall>a\<in>set alerts. a \<noteq> None \<Longrightarrow>
   filterAlerts_alerts r m alerts filtered =
     Return (filtered @ filter (\<lambda>a. accepted r m (alert_Labels (the a))) alerts)"
proof (induction alerts arbitrary: filtered)
  case Nil
  show ?case by simp
next
  case (Cons x xs)
  then obtain a where x: "x = Some a" by auto
  from Cons.prems have rest: "\<forall>a\<in>set xs. a \<noteq> None" by simp
  show ?case unfolding x by (simp add: Let_def Cons.IH [OF rest])
qed

lemma filterAlerts_output_alerts:
  assumes out: "filterAlerts lib r lvalues req resp = Return (Inr aout)"
    and mat: "newLabelMatcher r lvalues = Inr m"
    and a: "a \<in> set (Alerts aout)"
  shows "\<exists>a'. a = Some a' \<and> accepted r m (alert_Labels a')"
proof -
  from out mat obtain data :: alertsData
    where loop: "filterAlerts_alerts r m (Alerts data) [] = Return (Alerts aout)"
    by (auto simp add: filterAlerts_def split: sum.splits outcome.splits)
  have nn: "\<forall>x\<in>set (Alerts data). x \<noteq> None"
  proof
    fix x
    assume x: "x \<in> set (Alerts data)"
    show "x \<noteq> None"
    proof
      assume "x = None"
      with x have "None \<in> set (Alerts data)" by simp
      from filterAlerts_alerts_nil_Panic [OF this, of r m "[]"] loop show False by simp
    qed
  qed
  from loop filterAlerts_alerts_filter [OF nn, of r m "[]"]
  have "Alerts aout = filter (\<lambda>a. accepted r m (alert_Labels (the a))) (Alerts data)"
    by simp
  with a nn show ?thesis by auto
qed

subsection \<open>The sample document\<close>

lemmas example_defs =
  example_stdlib_def stub_stdlib_def example_rawGroup_def example_rule_table_def
  example_r1_def example_r2_def example_r3_def example_rulesData_def example_ruleGroup_def
  example_routes_def example_alertingRule_def example_recordingRule_def example_alert_def
  example_envelope_def example_alerts_def example_response_def

lemma example_decodes:
  "json_Unmarshal_rulesData example_stdlib b = Inr example_rulesData"
  by (simp add: json_Unmarshal_rulesData_def example_stdlib_def stub_stdlib_def
      example_rawGroup_def example_rule_table_def rule_UnmarshalJSON_def
      example_r1_def example_r2_def example_r3_def example_rulesData_def
      example_ruleGroup_def)

lemma example_matcher:
  "newLabelMatcher (example_routes flag) [''a''] = Inr (\<lambda>v. v \<in> set [''a''])"
  by (simp add: example_routes_def)

lemma example_filterRules_True:
  "filterRules example_stdlib (example_routes True) [''a''] req (example_envelope ''success'') =
   Return (Inr \<lparr>RuleGroups =
     [Some (example_ruleGroup ''g1'' [example_r1, example_r3_partial])]\<rparr>)"
  by (simp add: filterRules_def json_Unmarshal_rulesData_def rule_UnmarshalJSON_def
      rule_Labels_def Labels_Copy_def Let_def example_r3_partial_def example_defs)

lemma example_filterRules_False:
  "filterRules example_stdlib (example_routes False) [''a''] req (example_envelope ''success'') =
   Return (Inr \<lparr>RuleGroups = [Some (example_ruleGroup ''g1'' [example_r1])]\<rparr>)"
  by (simp add: filterRules_def json_Unmarshal_rulesData_def rule_UnmarshalJSON_def
      rule_Labels_def Labels_Copy_def Let_def example_defs)

lemma example_filterAlerts:
  "filterAlerts example_stdlib (example_routes flag) [''a''] req (example_envelope ''success'') =
   Return (Inr \<lparr>Alerts =
     [Some (example_alert ''a'' ''firing''), Some (example_alert ''a'' ''pending'')]\<rparr>)"
  by (simp add: filterAlerts_def Let_def example_defs)

subsection \<open>Responses that are not 200\<close>

text \<open>
  Claim C5. For every backend response whose status code is not 200, the function
  returned by \<^verbatim>\<open>modifyAPIResponse\<close> returns \<^verbatim>\<open>nil\<close> and leaves the response as it was:
  status code, header, body (still open and unread), and every other field.
\<close>

theorem modifyAPIResponse_non200_passthrough:
  "StatusCode resp \<noteq> 200 \<Longrightarrow> modifyAPIResponse lib f resp = Return (resp, None)"
  by (simp add: modifyAPIResponse_def)

theorem modifyAPIResponse_non200_passthrough_witness:
  "StatusCode (example_response 503 [''Content-Encoding'' \<mapsto> [''gzip'']]) \<noteq> 200 \<and>
   modifyAPIResponse
     (stub_stdlib (Inr (example_envelope ''success'')) (Inr []) [] (Inr \<lparr>Alerts = []\<rparr>))
     (filterAlerts
        (stub_stdlib (Inr (example_envelope ''success'')) (Inr []) [] (Inr \<lparr>Alerts = []\<rparr>))
        (example_routes True))
     (example_response 503 [''Content-Encoding'' \<mapsto> [''gzip'']]) =
   Return (example_response 503 [''Content-Encoding'' \<mapsto> [''gzip'']], None)"
  using modifyAPIResponse_non200_passthrough
    [of "example_response 503 [''Content-Encoding'' \<mapsto> [''gzip'']]"]
  by (simp add: example_response_def)

subsection \<open>The alert filter\<close>

text \<open>
  Claim C9, as amended. When the alerts payload decodes and the matcher is built:
  for a list of alerts none of which is a nil pointer, \<^verbatim>\<open>filterAlerts\<close> returns the
  alerts whose value of the enforced label is not empty and accepted by the matcher,
  those and no others, each as it was, in their original order; for a list that holds
  a nil pointer (a JSON \<^verbatim>\<open>null\<close> among the alerts), it returns nothing: reading the labels
  of the nil alert at line 296 panics.
\<close>

theorem filterAlerts_pure_filter:
  assumes "json_Unmarshal_alertsData lib (Data resp) = Inr data"
    and "newLabelMatcher r lvalues = Inr m"
  shows "filterAlerts lib r lvalues req resp =
           (if None \<in> set (Alerts data) then Panic
            else
              Return (Inr \<lparr>Alerts =
                filter (\<lambda>a. Labels_Get (alert_Labels (the a)) (label r) \<noteq> '''' \<and>
                             m (Labels_Get (alert_Labels (the a)) (label r)))
                       (Alerts data)\<rparr>))"
proof (cases "None \<in> set (Alerts data)")
  case True
  from filterAlerts_alerts_nil_Panic [OF True, of r m "[]"] assms True
  show ?thesis by (simp add: filterAlerts_def)
next
  case False
  have "\<forall>a\<in>set (Alerts data). a \<noteq> None"
  proof
    fix a
    assume a: "a \<in> set (Alerts data)"
    show "a \<noteq> None"
    proof
      assume "a = None"
      with a False show False by simp
    qed
  qed
  from filterAlerts_alerts_filter [OF this, of r m "[]"] assms False
  show ?thesis by (simp add: filterAlerts_def)
qed

theorem filterAlerts_pure_filter_witness:
  "filterAlerts (example_stdlib :: unit stdlib) (example_routes False) [''a'']
     \<lparr>Context = Some [''a'']\<rparr> (example_envelope ''success'') =
   Return (Inr \<lparr>Alerts =
     [Some (example_alert ''a'' ''firing''), Some (example_alert ''a'' ''pending'')]\<rparr>)"
proof -
  have d: "json_Unmarshal_alertsData (example_stdlib :: unit stdlib)
             (Data (example_envelope ''success'')) = Inr \<lparr>Alerts = example_alerts\<rparr>"
    by (simp add: example_stdlib_def stub_stdlib_def)
  show ?thesis
    unfolding filterAlerts_pure_filter [OF d example_matcher]
    by (simp add: example_alerts_def example_alert_def example_routes_def)
qed

text \<open>
  The specification states the filter for every alerts document. An alerts payload whose
  second alert is \<^verbatim>\<open>null\<close> decodes to a list with a nil pointer, the matcher is built,
  and the filter panics: it returns no document.
\<close>

theorem filterAlerts_pure_filter_counterexample:
  "json_Unmarshal_alertsData
     (stub_stdlib (Inr (example_envelope ''success'')) (Inr []) []
        (Inr \<lparr>Alerts = [Some (example_alert ''a'' ''firing''), None]\<rparr>) :: unit stdlib)
     (Data (example_envelope ''success'')) =
   Inr \<lparr>Alerts = [Some (example_alert ''a'' ''firing''), None]\<rparr> \<and>
   newLabelMatcher (example_routes False) [''a''] = Inr (\<lambda>v. v \<in> set [''a'']) \<and>
   filterAlerts
     (stub_stdlib (Inr (example_envelope ''success'')) (Inr []) []
        (Inr \<lparr>Alerts = [Some (example_alert ''a'' ''firing''), None]\<rparr>) :: unit stdlib)
     (example_routes False) [''a''] \<lparr>Context = Some [''a'']\<rparr> (example_envelope ''success'') =
   Panic"
  by (simp add: filterAlerts_def stub_stdlib_def example_routes_def example_alert_def Let_def)

subsection \<open>What the outputs contain\<close>

text \<open>
  Claim C1, as amended. With the matcher of the request: every alert of the output of
  \<^verbatim>\<open>filterAlerts\<close> has a value of the enforced label that is not empty and accepted by
  the matcher. Every rule of the output of \<^verbatim>\<open>filterRules\<close> either has itself such a
  value (it is then a rule of the input, kept with all its alerts), or, and only when
  the enforcement-mode flag is set, is a synthesised alerting rule whose own value is
  empty or refused and whose alerts, at least one, all have a value that is not empty
  and accepted.
\<close>

theorem filter_outputs_tenant_isolation:
  assumes "newLabelMatcher r lvalues = Inr m"
  shows "(filterAlerts lib r lvalues req resp = Return (Inr aout) \<longrightarrow>
            (\<forall>a\<in>set (Alerts aout).
               \<exists>a'. a = Some a' \<and>
                 Labels_Get (alert_Labels a') (label r) \<noteq> '''' \<and>
                 m (Labels_Get (alert_Labels a') (label r)))) \<and>
         (filterRules lib r lvalues req resp = Return (Inr out) \<longrightarrow>
            (\<forall>g\<in>set (RuleGroups out).
               \<exists>g'. g = Some g' \<and>
                 (\<forall>ru\<in>set (rg_Rules g').
                    (\<exists>ls. rule_Labels ru = Return ls \<and>
                       Labels_Get ls (label r) \<noteq> '''' \<and> m (Labels_Get ls (label r))) \<or>
                    (rulesWithActiveAlerts r \<and>
                     (\<exists>ar. ru = \<lparr>rule_alertingRule = Some ar, rule_recordingRule = None\<rparr> \<and>
                        \<not> (Labels_Get (ar_Labels ar) (label r) \<noteq> '''' \<and>
                           m (Labels_Get (ar_Labels ar) (label r))) \<and>
                        ar_Alerts ar \<noteq> [] \<and>
                        (\<forall>a\<in>set (ar_Alerts ar).
                           \<exists>a'. a = Some a' \<and>
                             Labels_Get (alert_Labels a') (label r) \<noteq> '''' \<and>
                             m (Labels_Get (alert_Labels a') (label r))))))))"
proof (intro conjI impI ballI)
  fix a
  assume "filterAlerts lib r lvalues req resp = Return (Inr aout)" and "a \<in> set (Alerts aout)"
  from filterAlerts_output_alerts [OF this(1) assms this(2)]
  show "\<exists>a'. a = Some a' \<and> Labels_Get (alert_Labels a') (label r) \<noteq> '''' \<and>
               m (Labels_Get (alert_Labels a') (label r))" .
next
  fix g
  assume "filterRules lib r lvalues req resp = Return (Inr out)" and "g \<in> set (RuleGroups out)"
  from filterRules_output_groups [OF this(1) assms this(2)]
  show "\<exists>g'. g = Some g' \<and>
          (\<forall>ru\<in>set (rg_Rules g').
             (\<exists>ls. rule_Labels ru = Return ls \<and>
                Labels_Get ls (label r) \<noteq> '''' \<and> m (Labels_Get ls (label r))) \<or>
             (rulesWithActiveAlerts r \<and>
              (\<exists>ar. ru = \<lparr>rule_alertingRule = Some ar, rule_recordingRule = None\<rparr> \<and>
                 \<not> (Labels_Get (ar_Labels ar) (label r) \<noteq> '''' \<and>
                    m (Labels_Get (ar_Labels ar) (label r))) \<and>
                 ar_Alerts ar \<noteq> [] \<and>
                 (\<forall>a\<in>set (ar_Alerts ar).
                    \<exists>a'. a = Some a' \<and>
                      Labels_Get (alert_Labels a') (label r) \<noteq> '''' \<and>
                      m (Labels_Get (alert_Labels a') (label r))))))"
    by blast
qed

theorem filter_outputs_tenant_isolation_witness:
  "filterAlerts (example_stdlib :: unit stdlib) (example_routes True) [''a'']
     \<lparr>Context = Some [''a'']\<rparr> (example_envelope ''success'') =
   Return (Inr \<lparr>Alerts =
     [Some (example_alert ''a'' ''firing''), Some (example_alert ''a'' ''pending'')]\<rparr>) \<and>
   filterRules (example_stdlib :: unit stdlib) (example_routes True) [''a'']
     \<lparr>Context = Some [''a'']\<rparr> (example_envelope ''success'') =
   Return (Inr \<lparr>RuleGroups =
     [Some (example_ruleGroup ''g1'' [example_r1, example_r3_partial])]\<rparr>) \<and>
   Labels_Get (alert_Labels (example_alert ''a'' ''firing'')) ''namespace'' = ''a'' \<and>
   Labels_Get (alert_Labels (example_alert ''a'' ''pending'')) ''namespace'' = ''a'' \<and>
   rule_Labels example_r1 = Return [(''namespace'', ''a''), (''severity'', ''page'')] \<and>
   rule_Labels example_r3_partial = Return [(''namespace'', ''b''), (''severity'', ''page'')] \<and>
   rulesWithActiveAlerts (example_routes True) \<and>
   ar_Alerts (the (rule_alertingRule example_r3_partial)) =
     [Some (example_alert ''a'' ''pending''), Some (example_alert ''a'' ''firing'')]"
proof -
  have a: "filterAlerts (example_stdlib :: unit stdlib) (example_routes True) [''a'']
             \<lparr>Context = Some [''a'']\<rparr> (example_envelope ''success'') =
           Return (Inr \<lparr>Alerts =
             [Some (example_alert ''a'' ''firing''), Some (example_alert ''a'' ''pending'')]\<rparr>)"
    by (rule example_filterAlerts)
  have b: "filterRules (example_stdlib :: unit stdlib) (example_routes True) [''a'']
             \<lparr>Context = Some [''a'']\<rparr> (example_envelope ''success'') =
           Return (Inr \<lparr>RuleGroups =
             [Some (example_ruleGroup ''g1'' [example_r1, example_r3_partial])]\<rparr>)"
    by (rule example_filterRules_True)
  have c: "Labels_Get (alert_Labels (example_alert ''a'' ''firing'')) ''namespace'' = ''a'' \<and>
   Labels_Get (alert_Labels (example_alert ''a'' ''pending'')) ''namespace'' = ''a'' \<and>
   rule_Labels example_r1 = Return [(''namespace'', ''a''), (''severity'', ''page'')] \<and>
   rule_Labels example_r3_partial = Return [(''namespace'', ''b''), (''severity'', ''page'')] \<and>
   rulesWithActiveAlerts (example_routes True) \<and>
   ar_Alerts (the (rule_alertingRule example_r3_partial)) =
     [Some (example_alert ''a'' ''pending''), Some (example_alert ''a'' ''firing'')]"
    using filter_outputs_tenant_isolation
      [OF example_matcher,
       of "example_stdlib :: unit stdlib" True "\<lparr>Context = Some [''a'']\<rparr>"
          "example_envelope ''success''"
          "\<lparr>Alerts = [Some (example_alert ''a'' ''firing''),
                      Some (example_alert ''a'' ''pending'')]\<rparr>"
          "\<lparr>RuleGroups = [Some (example_ruleGroup ''g1'' [example_r1, example_r3_partial])]\<rparr>"]
      a b
    by (simp add: rule_Labels_def example_r1_def example_r3_partial_def
        example_alertingRule_def example_alert_def example_routes_def)
  from a b c show ?thesis by (intro conjI) simp_all
qed

text \<open>
  The property as the specification states it fails on the sample document with the
  flag set: the second
  rule of the output is the synthesised rule, whose own namespace \<open>b\<close> is not an allowed
  value, and the first rule of the output, kept whole, carries an alert of namespace \<open>b\<close>.
\<close>

theorem filter_outputs_tenant_isolation_counterexample:
  "filterRules (example_stdlib :: unit stdlib) (example_routes True) [''a'']
     \<lparr>Context = Some [''a'']\<rparr> (example_envelope ''success'') =
   Return (Inr \<lparr>RuleGroups =
     [Some (example_ruleGroup ''g1'' [example_r1, example_r3_partial])]\<rparr>) \<and>
   newLabelMatcher (example_routes True) [''a''] = Inr (\<lambda>v. v \<in> set [''a'']) \<and>
   rule_Labels example_r3_partial = Return [(''namespace'', ''b''), (''severity'', ''page'')] \<and>
   Labels_Get [(''namespace'', ''b''), (''severity'', ''page'')] (label (example_routes True)) =
     ''b'' \<and>
   ''b'' \<notin> set [''a''] \<and>
   ar_Alerts (the (rule_alertingRule example_r1)) = [Some (example_alert ''b'' ''firing'')] \<and>
   Labels_Get (alert_Labels (example_alert ''b'' ''firing'')) (label (example_routes True)) =
     ''b''"
proof (rule conjI)
  show "filterRules (example_stdlib :: unit stdlib) (example_routes True) [''a'']
          \<lparr>Context = Some [''a'']\<rparr> (example_envelope ''success'') =
        Return (Inr \<lparr>RuleGroups =
          [Some (example_ruleGroup ''g1'' [example_r1, example_r3_partial])]\<rparr>)"
    by (rule example_filterRules_True)
next
  show "newLabelMatcher (example_routes True) [''a''] = Inr (\<lambda>v. v \<in> set [''a'']) \<and>
   rule_Labels example_r3_partial = Return [(''namespace'', ''b''), (''severity'', ''page'')] \<and>
   Labels_Get [(''namespace'', ''b''), (''severity'', ''page'')] (label (example_routes True)) =
     ''b'' \<and>
   ''b'' \<notin> set [''a''] \<and>
   ar_Alerts (the (rule_alertingRule example_r1)) = [Some (example_alert ''b'' ''firing'')] \<and>
   Labels_Get (alert_Labels (example_alert ''b'' ''firing'')) (label (example_routes True)) =
     ''b''"
    by (simp add: rule_Labels_def example_r1_def
        example_r3_partial_def example_alertingRule_def example_alert_def example_routes_def)
qed

text \<open>
  Claim C6. When \<^verbatim>\<open>filterRules\<close> returns a document, no group of it has an empty rule
  list, and its groups are, in their original order, the groups of the input whose
  filtered rule list is not empty, each with its rules replaced by that list: a group
  whose filtered list is empty is dropped.
\<close>

theorem filterRules_no_empty_group:
  assumes "filterRules lib r lvalues req resp = Return (Inr out)"
    and "json_Unmarshal_rulesData lib (Data resp) = Inr rgs"
    and "newLabelMatcher r lvalues = Inr m"
  shows "(\<forall>g\<in>set (RuleGroups out). \<exists>g'. g = Some g' \<and> rg_Rules g' \<noteq> []) \<and>
         RuleGroups out =
           concat (map (\<lambda>g. case filterRules_rules r m (rg_Rules (the g)) [] of
                               Panic \<Rightarrow> []
                             | Return rules \<Rightarrow>
                                 if rules = [] then []
                                 else [Some ((the g)\<lparr>rg_Rules := rules\<rparr>)])
                       (RuleGroups rgs))"
proof
  show "\<forall>g\<in>set (RuleGroups out). \<exists>g'. g = Some g' \<and> rg_Rules g' \<noteq> []"
  proof
    fix g
    assume "g \<in> set (RuleGroups out)"
    from filterRules_output_groups [OF assms(1) assms(3) this]
    show "\<exists>g'. g = Some g' \<and> rg_Rules g' \<noteq> []" by blast
  qed
next
  from assms have "filterRules_groups r m (RuleGroups rgs) [] = Return (RuleGroups out)"
    by (auto simp add: filterRules_def split: outcome.splits)
  from filterRules_groups_concat [OF this] show "RuleGroups out =
           concat (map (\<lambda>g. case filterRules_rules r m (rg_Rules (the g)) [] of
                               Panic \<Rightarrow> []
                             | Return rules \<Rightarrow>
                                 if rules = [] then []
                                 else [Some ((the g)\<lparr>rg_Rules := rules\<rparr>)])
                       (RuleGroups rgs))" .
qed

theorem filterRules_no_empty_group_witness:
  "filterRules (example_stdlib :: unit stdlib) (example_routes False) [''a'']
     \<lparr>Context = Some [''a'']\<rparr> (example_envelope ''success'') =
   Return (Inr \<lparr>RuleGroups = [Some (example_ruleGroup ''g1'' [example_r1])]\<rparr>) \<and>
   RuleGroups example_rulesData =
     [Some (example_ruleGroup ''g1'' [example_r1, example_r2, example_r3]),
      Some (example_ruleGroup ''g2'' [example_r2])] \<and>
   filterRules_rules (example_routes False) (\<lambda>v. v \<in> set [''a'']) [example_r2] [] = Return [] \<and>
   rg_Rules (example_ruleGroup ''g1'' [example_r1]) \<noteq> []"
proof -
  have a: "filterRules (example_stdlib :: unit stdlib) (example_routes False) [''a'']
             \<lparr>Context = Some [''a'']\<rparr> (example_envelope ''success'') =
           Return (Inr \<lparr>RuleGroups = [Some (example_ruleGroup ''g1'' [example_r1])]\<rparr>)"
    by (rule example_filterRules_False)
  have c: "RuleGroups example_rulesData =
     [Some (example_ruleGroup ''g1'' [example_r1, example_r2, example_r3]),
      Some (example_ruleGroup ''g2'' [example_r2])] \<and>
   filterRules_rules (example_routes False) (\<lambda>v. v \<in> set [''a'']) [example_r2] [] = Return [] \<and>
   rg_Rules (example_ruleGroup ''g1'' [example_r1]) \<noteq> []"
    using filterRules_no_empty_group [OF a example_decodes example_matcher]
    by (simp add: example_rulesData_def example_ruleGroup_def
        rule_Labels_def example_r2_def example_recordingRule_def example_routes_def)
  from a c show ?thesis by (intro conjI) simp_all
qed

subsection \<open>Single rules\<close>



text \<open>
  Claim C7. A recording rule whose value of the enforced label is empty or refused by
  the matcher adds nothing to the output, whatever the enforcement-mode flag (the
  theorem assumes nothing on it): for such a rule \<open>rgr\<close> at any place of any group \<open>g\<close>,
  the output is the output of the groups before, the group \<open>g\<close> with the output of the
  rules before and of the rules after (the group is dropped when both are empty), and
  the output of the groups after; and \<open>rgr\<close> is a rule of no group of the output.
\<close>

theorem filterRules_drops_recording_rule:
  assumes "json_Unmarshal_rulesData lib (Data resp) = Inr rgs"
    and "newLabelMatcher r lvalues = Inr m"
    and "RuleGroups rgs = gpre @ Some g # gpost"
    and "rg_Rules g = pre @ rgr # post"
    and "rule_alertingRule rgr = None"
    and "rule_recordingRule rgr = Some rr"
    and "Labels_Get (rr_Labels rr) (label r) = '''' \<or> \<not> m (Labels_Get (rr_Labels rr) (label r))"
  shows "filterRules lib r lvalues req resp =
     (case filterRules_groups r m gpre [] of
        Panic \<Rightarrow> Panic
      | Return opre \<Rightarrow>
          (case filterRules_rules r m pre [] of
             Panic \<Rightarrow> Panic
           | Return o1 \<Rightarrow>
               (case filterRules_rules r m post [] of
                  Panic \<Rightarrow> Panic
                | Return o2 \<Rightarrow>
                    (case filterRules_groups r m gpost [] of
                       Panic \<Rightarrow> Panic
                     | Return opost \<Rightarrow>
                         Return (Inr \<lparr>RuleGroups =
                           opre @
                           (if o1 @ o2 = [] then [] else [Some (g\<lparr>rg_Rules := o1 @ o2\<rparr>)]) @
                           opost\<rparr>))))) \<and>
     (\<forall>out g'. filterRules lib r lvalues req resp = Return (Inr out) \<longrightarrow>
                Some g' \<in> set (RuleGroups out) \<longrightarrow> rgr \<notin> set (rg_Rules g'))"
proof
  from assms(5-7) have l: "rule_Labels rgr = Return (rr_Labels rr)"
    by (simp add: rule_Labels_def)
  from assms(5,7) have c: "filterRules_rule r m rgr = Return []"
    by (auto simp add: filterRules_rule_eq l)
  show "filterRules lib r lvalues req resp =
     (case filterRules_groups r m gpre [] of
        Panic \<Rightarrow> Panic
      | Return opre \<Rightarrow>
          (case filterRules_rules r m pre [] of
             Panic \<Rightarrow> Panic
           | Return o1 \<Rightarrow>
               (case filterRules_rules r m post [] of
                  Panic \<Rightarrow> Panic
                | Return o2 \<Rightarrow>
                    (case filterRules_groups r m gpost [] of
                       Panic \<Rightarrow> Panic
                     | Return opost \<Rightarrow>
                         Return (Inr \<lparr>RuleGroups =
                           opre @
                           (if o1 @ o2 = [] then [] else [Some (g\<lparr>rg_Rules := o1 @ o2\<rparr>)]) @
                           opost\<rparr>)))))"
    unfolding filterRules_around [OF assms(1-4)] c
    by (simp split: outcome.splits)
  show "\<forall>out g'. filterRules lib r lvalues req resp = Return (Inr out) \<longrightarrow>
                Some g' \<in> set (RuleGroups out) \<longrightarrow> rgr \<notin> set (rg_Rules g')"
  proof (intro allI impI notI)
    fix out g'
    assume out: "filterRules lib r lvalues req resp = Return (Inr out)"
      and g': "Some g' \<in> set (RuleGroups out)" and mem: "rgr \<in> set (rg_Rules g')"
    from filterRules_output_groups [OF out assms(2) g'] mem
    have "(\<exists>ls. rule_Labels rgr = Return ls \<and> accepted r m ls) \<or>
          (\<exists>ar. rgr = \<lparr>rule_alertingRule = Some ar, rule_recordingRule = None\<rparr>)"
      by auto
    with l assms(5,7) show False by auto
  qed
qed

theorem filterRules_drops_recording_rule_witness:
  "filterRules (example_stdlib :: unit stdlib) (example_routes True) [''a'']
     \<lparr>Context = Some [''a'']\<rparr> (example_envelope ''success'') =
   Return (Inr \<lparr>RuleGroups =
     [Some (example_ruleGroup ''g1'' [example_r1, example_r3_partial])]\<rparr>) \<and>
   rule_alertingRule example_r2 = None \<and>
   rule_recordingRule example_r2 = Some (example_recordingRule ''b'') \<and>
   Labels_Get (rr_Labels (example_recordingRule ''b'')) (label (example_routes True)) = ''b'' \<and>
   example_r2 \<notin> set [example_r1, example_r3_partial]"
proof -
  have g: "RuleGroups example_rulesData =
      [] @ Some (example_ruleGroup ''g1'' [example_r1, example_r2, example_r3]) #
      [Some (example_ruleGroup ''g2'' [example_r2])]"
    by (simp add: example_rulesData_def)
  have rs: "rg_Rules (example_ruleGroup ''g1'' [example_r1, example_r2, example_r3]) =
      [example_r1] @ example_r2 # [example_r3]"
    by (simp add: example_ruleGroup_def)
  have n: "rule_alertingRule example_r2 = None" by (simp add: example_r2_def)
  have s: "rule_recordingRule example_r2 = Some (example_recordingRule ''b'')"
    by (simp add: example_r2_def)
  have l: "Labels_Get (rr_Labels (example_recordingRule ''b'')) (label (example_routes True)) = ''b''"
    by (simp add: example_recordingRule_def example_routes_def)
  have d: "Labels_Get (rr_Labels (example_recordingRule ''b'')) (label (example_routes True)) = '''' \<or>
           \<not> (\<lambda>v. v \<in> set [''a''])
                (Labels_Get (rr_Labels (example_recordingRule ''b'')) (label (example_routes True)))"
    by (simp add: l)
  have a: "filterRules (example_stdlib :: unit stdlib) (example_routes True) [''a'']
             \<lparr>Context = Some [''a'']\<rparr> (example_envelope ''success'') =
           Return (Inr \<lparr>RuleGroups =
             [Some (example_ruleGroup ''g1'' [example_r1, example_r3_partial])]\<rparr>)"
    by (rule example_filterRules_True)
  have "example_r2 \<notin> set (rg_Rules (example_ruleGroup ''g1'' [example_r1, example_r3_partial]))"
    using filterRules_drops_recording_rule [OF example_decodes example_matcher g rs n s d,
        where ?'a = unit and req = "\<lparr>Context = Some [''a'']\<rparr>"] a
    by simp
  then have m: "example_r2 \<notin> set [example_r1, example_r3_partial]"
    by (simp add: example_ruleGroup_def)
  from a n s l m show ?thesis by (intro conjI)
qed

text \<open>
  Claim C8, as amended. When the enforcement-mode flag is set, an alerting rule \<open>p\<close>
  whose own value of the enforced label is empty or refused, and of whose alerts at
  least one has a value that is not empty and accepted, is replaced in the output by a
  synthesised alerting rule. Its name, query, duration, keepFiringFor, labels, health,
  lastError, evaluationTime, lastEvaluation and type are those of \<open>p\<close>, and so are its
  annotations: they are copied from the parent rule (a rule group has no annotations).
  Its alert list is built from the empty list and holds the accepted alerts of \<open>p\<close> in
  order; its state is built from the empty state by the switch of lines 259 to 266
  over the states of these alerts.
\<close>

theorem filterRules_synthetic_rule_fields:
  assumes "json_Unmarshal_rulesData lib (Data resp) = Inr rgs"
    and "newLabelMatcher r lvalues = Inr m"
    and "RuleGroups rgs = gpre @ Some g # gpost"
    and "rg_Rules g = pre @ rgr # post"
    and "rule_alertingRule rgr = Some p"
    and "Labels_Get (ar_Labels p) (label r) = '''' \<or> \<not> m (Labels_Get (ar_Labels p) (label r))"
    and "rulesWithActiveAlerts r"
    and "\<forall>a\<in>set (ar_Alerts p). a \<noteq> None"
    and "filter (\<lambda>a. Labels_Get (alert_Labels (the a)) (label r) \<noteq> '''' \<and>
                      m (Labels_Get (alert_Labels (the a)) (label r))) (ar_Alerts p) \<noteq> []"
  shows "filterRules lib r lvalues req resp =
     (case filterRules_groups r m gpre [] of
        Panic \<Rightarrow> Panic
      | Return opre \<Rightarrow>
          (case filterRules_rules r m pre [] of
             Panic \<Rightarrow> Panic
           | Return o1 \<Rightarrow>
               (case filterRules_rules r m post [] of
                  Panic \<Rightarrow> Panic
                | Return o2 \<Rightarrow>
                    (case filterRules_groups r m gpost [] of
                       Panic \<Rightarrow> Panic
                     | Return opost \<Rightarrow>
                         Return (Inr \<lparr>RuleGroups =
                           opre @
                           Some (g\<lparr>rg_Rules :=
                             o1 @
                             \<lparr>rule_alertingRule = Some
                                \<lparr>ar_State =
                                   foldl switch_State ''''
                                     (map (\<lambda>a. alert_State (the a))
                                        (filter
                                           (\<lambda>a. Labels_Get (alert_Labels (the a)) (label r) \<noteq> '''' \<and>
                                                m (Labels_Get (alert_Labels (the a)) (label r)))
                                           (ar_Alerts p))),
                                 ar_Name = ar_Name p,
                                 ar_Query = ar_Query p,
                                 ar_Duration = ar_Duration p,
                                 ar_KeepFiringFor = ar_KeepFiringFor p,
                                 ar_Labels = ar_Labels p,
                                 ar_Annotations = ar_Annotations p,
                                 ar_Alerts =
                                   filter
                                     (\<lambda>a. Labels_Get (alert_Labels (the a)) (label r) \<noteq> '''' \<and>
                                          m (Labels_Get (alert_Labels (the a)) (label r)))
                                     (ar_Alerts p),
                                 ar_Health = ar_Health p,
                                 ar_LastError = ar_LastError p,
                                 ar_EvaluationTime = ar_EvaluationTime p,
                                 ar_LastEvaluation = ar_LastEvaluation p,
                                 ar_Type = ar_Type p\<rparr>,
                              rule_recordingRule = None\<rparr> #
                             o2\<rparr>) #
                           opost\<rparr>)))))"
proof -
  from assms(5) have l: "rule_Labels rgr = Return (ar_Labels p)"
    by (simp add: rule_Labels_def)
  from assms(5-7,9) have c: "filterRules_rule r m rgr =
      Return [\<lparr>rule_alertingRule = Some
                \<lparr>ar_State =
                   foldl switch_State ''''
                     (map (\<lambda>a. alert_State (the a))
                        (filter (\<lambda>a. accepted r m (alert_Labels (the a))) (ar_Alerts p))),
                 ar_Name = ar_Name p,
                 ar_Query = ar_Query p,
                 ar_Duration = ar_Duration p,
                 ar_KeepFiringFor = ar_KeepFiringFor p,
                 ar_Labels = ar_Labels p,
                 ar_Annotations = ar_Annotations p,
                 ar_Alerts = filter (\<lambda>a. accepted r m (alert_Labels (the a))) (ar_Alerts p),
                 ar_Health = ar_Health p,
                 ar_LastError = ar_LastError p,
                 ar_EvaluationTime = ar_EvaluationTime p,
                 ar_LastEvaluation = ar_LastEvaluation p,
                 ar_Type = ar_Type p\<rparr>,
               rule_recordingRule = None\<rparr>]"
    by (auto simp add: filterRules_rule_eq l filterRules_alerts_None [OF assms(8)])
  show ?thesis
    unfolding filterRules_around [OF assms(1-4)] c
    by (simp split: outcome.splits)
qed

theorem filterRules_synthetic_rule_fields_witness:
  "filterRules (example_stdlib :: unit stdlib) (example_routes True) [''a'']
     \<lparr>Context = Some [''a'']\<rparr> (example_envelope ''success'') =
   Return (Inr \<lparr>RuleGroups =
     [Some (example_ruleGroup ''g1'' [example_r1, example_r3_partial])]\<rparr>) \<and>
   rule_alertingRule example_r3_partial =
     Some ((the (rule_alertingRule example_r3))
       \<lparr>ar_Alerts := [Some (example_alert ''a'' ''pending''),
                      Some (example_alert ''a'' ''firing'')]\<rparr>)"
proof -
  have g: "RuleGroups example_rulesData =
      [] @ Some (example_ruleGroup ''g1'' [example_r1, example_r2, example_r3]) #
      [Some (example_ruleGroup ''g2'' [example_r2])]"
    by (simp add: example_rulesData_def)
  have rs: "rg_Rules (example_ruleGroup ''g1'' [example_r1, example_r2, example_r3]) =
      [example_r1, example_r2] @ example_r3 # []"
    by (simp add: example_ruleGroup_def)
  have p: "rule_alertingRule example_r3 =
      Some (example_alertingRule ''b''
              [Some (example_alert ''a'' ''pending''), Some (example_alert ''b'' ''firing''),
               Some (example_alert ''a'' ''firing'')])"
    by (simp add: example_r3_def)
  have n: "Labels_Get (ar_Labels (example_alertingRule ''b''
              [Some (example_alert ''a'' ''pending''), Some (example_alert ''b'' ''firing''),
               Some (example_alert ''a'' ''firing'')])) (label (example_routes True)) = '''' \<or>
           \<not> (\<lambda>v. v \<in> set [''a''])
               (Labels_Get (ar_Labels (example_alertingRule ''b''
              [Some (example_alert ''a'' ''pending''), Some (example_alert ''b'' ''firing''),
               Some (example_alert ''a'' ''firing'')])) (label (example_routes True)))"
    by (simp add: example_alertingRule_def example_routes_def)
  have f: "rulesWithActiveAlerts (example_routes True)"
    by (simp add: example_routes_def)
  have nn: "\<forall>a\<in>set (ar_Alerts (example_alertingRule ''b''
              [Some (example_alert ''a'' ''pending''), Some (example_alert ''b'' ''firing''),
               Some (example_alert ''a'' ''firing'')])). a \<noteq> None"
    by (simp add: example_alertingRule_def)
  have ne: "filter (\<lambda>x. Labels_Get (alert_Labels (the x)) (label (example_routes True)) \<noteq> '''' \<and>
                        (\<lambda>v. v \<in> set [''a''])
                          (Labels_Get (alert_Labels (the x)) (label (example_routes True))))
              (ar_Alerts (example_alertingRule ''b''
              [Some (example_alert ''a'' ''pending''), Some (example_alert ''b'' ''firing''),
               Some (example_alert ''a'' ''firing'')])) \<noteq> []"
    by (simp add: example_alertingRule_def example_alert_def example_routes_def)
  have a: "filterRules (example_stdlib :: unit stdlib) (example_routes True) [''a'']
     \<lparr>Context = Some [''a'']\<rparr> (example_envelope ''success'') =
   Return (Inr \<lparr>RuleGroups =
     [Some (example_ruleGroup ''g1'' [example_r1, example_r3_partial])]\<rparr>)"
    unfolding filterRules_synthetic_rule_fields
      [OF example_decodes example_matcher g rs p n f nn ne]
    by (simp add: rule_Labels_def Labels_Copy_def Let_def switch_State_def
        example_r3_partial_def example_defs)
  have b: "rule_alertingRule example_r3_partial =
     Some ((the (rule_alertingRule example_r3))
       \<lparr>ar_Alerts := [Some (example_alert ''a'' ''pending''),
                      Some (example_alert ''a'' ''firing'')]\<rparr>)"
    by (simp add: example_r3_partial_def example_r3_def example_alertingRule_def)
  from a b show ?thesis by (rule conjI)
qed

text \<open>
  The specification takes the annotations from the rule group. On the sample
  document the synthesised rule carries the annotations of its parent rule \<open>r3\<close>; the
  group \<open>g1\<close> consists of a name, a file, its rules and an interval.
\<close>

theorem filterRules_synthetic_rule_fields_counterexample:
  "filterRules (example_stdlib :: unit stdlib) (example_routes True) [''a'']
     \<lparr>Context = Some [''a'']\<rparr> (example_envelope ''success'') =
   Return (Inr \<lparr>RuleGroups =
     [Some (example_ruleGroup ''g1'' [example_r1, example_r3_partial])]\<rparr>) \<and>
   ar_Annotations (the (rule_alertingRule example_r3_partial)) = [(''runbook'', ''rule of b'')] \<and>
   ar_Annotations (the (rule_alertingRule example_r3)) = [(''runbook'', ''rule of b'')] \<and>
   example_ruleGroup ''g1'' [example_r1, example_r2, example_r3] =
     \<lparr>rg_Name = ''g1'', rg_File = ''rules.yaml'',
      rg_Rules = [example_r1, example_r2, example_r3], rg_Interval = 30\<rparr>"
proof (rule conjI)
  show "filterRules (example_stdlib :: unit stdlib) (example_routes True) [''a'']
     \<lparr>Context = Some [''a'']\<rparr> (example_envelope ''success'') =
   Return (Inr \<lparr>RuleGroups =
     [Some (example_ruleGroup ''g1'' [example_r1, example_r3_partial])]\<rparr>)"
    by (rule example_filterRules_True)
next
  show "ar_Annotations (the (rule_alertingRule example_r3_partial)) = [(''runbook'', ''rule of b'')] \<and>
   ar_Annotations (the (rule_alertingRule example_r3)) = [(''runbook'', ''rule of b'')] \<and>
   example_ruleGroup ''g1'' [example_r1, example_r2, example_r3] =
     \<lparr>rg_Name = ''g1'', rg_File = ''rules.yaml'',
      rg_Rules = [example_r1, example_r2, example_r3], rg_Interval = 30\<rparr>"
    by (simp add: example_r3_partial_def example_r3_def example_alertingRule_def
        example_ruleGroup_def)
qed

text \<open>
  Claim C2. A document of one group with one alerting rule \<open>p\<close> whose own value of the
  enforced label is empty or refused, with the three alerts: value \<open>a\<close>, state pending;
  value \<open>b\<close>, state firing; value \<open>a\<close>, state firing. The allowed value is \<open>a\<close>: the
  matcher accepts \<open>a\<close> and refuses \<open>b\<close>. With the enforcement-mode flag set, the output
  is the group with one rule: the synthesised alerting rule, which is \<open>p\<close> with the
  alerts of indices 0 and 2 and the state firing. After the first two alerts, the
  synthesised rule holds the alert of index 0 and the state pending.
\<close>

theorem filterRules_synthesis_three_alerts:
  assumes "json_Unmarshal_rulesData lib (Data resp) = Inr \<lparr>RuleGroups = [Some rg]\<rparr>"
    and "rg_Rules rg = [rgr]"
    and "rule_alertingRule rgr = Some p"
    and "newLabelMatcher r [a] = Inr m"
    and "a \<noteq> ''''" and "m a" and "\<not> m b"
    and "rulesWithActiveAlerts r"
    and "Labels_Get (ar_Labels p) (label r) = '''' \<or> \<not> m (Labels_Get (ar_Labels p) (label r))"
    and "ar_Alerts p = [Some a0, Some a1, Some a2]"
    and "Labels_Get (alert_Labels a0) (label r) = a" and "alert_State a0 = ''pending''"
    and "Labels_Get (alert_Labels a1) (label r) = b" and "alert_State a1 = ''firing''"
    and "Labels_Get (alert_Labels a2) (label r) = a" and "alert_State a2 = ''firing''"
  shows "filterRules lib r [a] req resp =
           Return (Inr \<lparr>RuleGroups =
             [Some (rg\<lparr>rg_Rules :=
                [\<lparr>rule_alertingRule =
                    Some (p\<lparr>ar_State := ''firing'',
                            ar_Alerts := [ar_Alerts p ! 0, ar_Alerts p ! 2]\<rparr>),
                  rule_recordingRule = None\<rparr>]\<rparr>)]\<rparr>) \<and>
         filterRules_alerts r m p (take 2 (ar_Alerts p)) None =
           Return (Some (p\<lparr>ar_State := ''pending'', ar_Alerts := [ar_Alerts p ! 0]\<rparr>))"
proof
  have l: "rule_Labels rgr = Return (ar_Labels p)"
    using assms(3) by (simp add: rule_Labels_def)
  have loop: "filterRules_alerts r m p (ar_Alerts p) None =
      Return (Some (p\<lparr>ar_State := ''firing'', ar_Alerts := [Some a0, Some a2]\<rparr>))"
    using assms(5-7,10-16) by (cases p) (simp add: Let_def Labels_Copy_def)
  have c: "filterRules_rule r m rgr =
      Return [\<lparr>rule_alertingRule =
                 Some (p\<lparr>ar_State := ''firing'', ar_Alerts := [Some a0, Some a2]\<rparr>),
               rule_recordingRule = None\<rparr>]"
    using assms(3,8,9) by (auto simp add: filterRules_rule_eq l loop)
  have gs: "RuleGroups \<lparr>RuleGroups = [Some rg]\<rparr> = [] @ Some rg # []" by simp
  have rs: "rg_Rules rg = [] @ rgr # []" using assms(2) by simp
  show "filterRules lib r [a] req resp =
           Return (Inr \<lparr>RuleGroups =
             [Some (rg\<lparr>rg_Rules :=
                [\<lparr>rule_alertingRule =
                    Some (p\<lparr>ar_State := ''firing'',
                            ar_Alerts := [ar_Alerts p ! 0, ar_Alerts p ! 2]\<rparr>),
                  rule_recordingRule = None\<rparr>]\<rparr>)]\<rparr>)"
    unfolding filterRules_around [OF assms(1) assms(4) gs rs] c
    by (simp add: assms(10))
  show "filterRules_alerts r m p (take 2 (ar_Alerts p)) None =
           Return (Some (p\<lparr>ar_State := ''pending'', ar_Alerts := [ar_Alerts p ! 0]\<rparr>))"
    using assms(5-7,10-14) by (cases p) (simp add: Let_def Labels_Copy_def)
qed

theorem filterRules_synthesis_three_alerts_witness:
  "filterRules
     (stub_stdlib (Inr (example_envelope ''success''))
        (Inr [Some (example_rawGroup ''g1'' [''r3''])]) example_rule_table
        (Inr \<lparr>Alerts = []\<rparr>) :: unit stdlib)
     (example_routes True) [''a''] \<lparr>Context = Some [''a'']\<rparr> (example_envelope ''success'') =
   Return (Inr \<lparr>RuleGroups = [Some (example_ruleGroup ''g1'' [example_r3_partial])]\<rparr>) \<and>
   ar_State (the (rule_alertingRule example_r3_partial)) = ''firing'' \<and>
   ar_Alerts (the (rule_alertingRule example_r3_partial)) =
     [Some (example_alert ''a'' ''pending''), Some (example_alert ''a'' ''firing'')]"
proof -
  have d: "json_Unmarshal_rulesData
             (stub_stdlib (Inr (example_envelope ''success''))
                (Inr [Some (example_rawGroup ''g1'' [''r3''])]) example_rule_table
                (Inr \<lparr>Alerts = []\<rparr>) :: unit stdlib)
             (Data (example_envelope ''success'')) =
           Inr \<lparr>RuleGroups = [Some (example_ruleGroup ''g1'' [example_r3])]\<rparr>"
    by (simp add: json_Unmarshal_rulesData_def stub_stdlib_def example_rawGroup_def
        example_rule_table_def rule_UnmarshalJSON_def example_r3_def example_ruleGroup_def)
  have rs: "rg_Rules (example_ruleGroup ''g1'' [example_r3]) = [example_r3]"
    by (simp add: example_ruleGroup_def)
  have p: "rule_alertingRule example_r3 =
      Some (example_alertingRule ''b''
              [Some (example_alert ''a'' ''pending''), Some (example_alert ''b'' ''firing''),
               Some (example_alert ''a'' ''firing'')])"
    by (simp add: example_r3_def)
  have a: "''a'' \<noteq> ''''" by simp
  have ma: "(\<lambda>v. v \<in> set [''a'']) ''a''" by simp
  have mb: "\<not> (\<lambda>v. v \<in> set [''a'']) ''b''" by simp
  have f: "rulesWithActiveAlerts (example_routes True)"
    by (simp add: example_routes_def)
  have n: "Labels_Get (ar_Labels (example_alertingRule ''b''
              [Some (example_alert ''a'' ''pending''), Some (example_alert ''b'' ''firing''),
               Some (example_alert ''a'' ''firing'')])) (label (example_routes True)) = '''' \<or>
           \<not> (\<lambda>v. v \<in> set [''a''])
               (Labels_Get (ar_Labels (example_alertingRule ''b''
              [Some (example_alert ''a'' ''pending''), Some (example_alert ''b'' ''firing''),
               Some (example_alert ''a'' ''firing'')])) (label (example_routes True)))"
    by (simp add: example_alertingRule_def example_routes_def)
  have al: "ar_Alerts (example_alertingRule ''b''
              [Some (example_alert ''a'' ''pending''), Some (example_alert ''b'' ''firing''),
               Some (example_alert ''a'' ''firing'')]) =
            [Some (example_alert ''a'' ''pending''), Some (example_alert ''b'' ''firing''),
             Some (example_alert ''a'' ''firing'')]"
    by (simp add: example_alertingRule_def)
  have l0: "Labels_Get (alert_Labels (example_alert ''a'' ''pending''))
              (label (example_routes True)) = ''a''"
    by (simp add: example_alert_def example_routes_def)
  have s0: "alert_State (example_alert ''a'' ''pending'') = ''pending''"
    by (simp add: example_alert_def)
  have l1: "Labels_Get (alert_Labels (example_alert ''b'' ''firing''))
              (label (example_routes True)) = ''b''"
    by (simp add: example_alert_def example_routes_def)
  have s1: "alert_State (example_alert ''b'' ''firing'') = ''firing''"
    by (simp add: example_alert_def)
  have l2: "Labels_Get (alert_Labels (example_alert ''a'' ''firing''))
              (label (example_routes True)) = ''a''"
    by (simp add: example_alert_def example_routes_def)
  have s2: "alert_State (example_alert ''a'' ''firing'') = ''firing''"
    by (simp add: example_alert_def)
  note inst = filterRules_synthesis_three_alerts
      [OF d rs p example_matcher a ma mb f n al l0 s0 l1 s1 l2 s2,
       where req = "\<lparr>Context = Some [''a'']\<rparr>"]
  have e: "filterRules
     (stub_stdlib (Inr (example_envelope ''success''))
        (Inr [Some (example_rawGroup ''g1'' [''r3''])]) example_rule_table
        (Inr \<lparr>Alerts = []\<rparr>) :: unit stdlib)
     (example_routes True) [''a''] \<lparr>Context = Some [''a'']\<rparr> (example_envelope ''success'') =
   Return (Inr \<lparr>RuleGroups = [Some (example_ruleGroup ''g1'' [example_r3_partial])]\<rparr>)"
    unfolding conjunct1 [OF inst]
    by (simp add: example_ruleGroup_def example_r3_partial_def example_alertingRule_def)
  have r: "ar_State (the (rule_alertingRule example_r3_partial)) = ''firing'' \<and>
   ar_Alerts (the (rule_alertingRule example_r3_partial)) =
     [Some (example_alert ''a'' ''pending''), Some (example_alert ''a'' ''firing'')]"
    by (simp add: example_r3_partial_def example_alertingRule_def)
  from e r show ?thesis by (rule conjI)
qed

subsection \<open>Decoding the envelope\<close>

lemma getAPIResponse_gzip:
  assumes "Header_Get (Header resp) ''Content-Encoding'' = ''gzip''" and "\<not> Uncompressed resp"
    and "gzip_NewReader lib (Body resp) = Inr reader"
  shows "getAPIResponse lib resp =
     (resp\<lparr>Header := Header_Del (Header resp) ''Content-Encoding'', Body := Closed\<rparr>,
      if StatusCode resp \<noteq> 200 then
        Inl (fmt_Errorf ''unexpected status code: %d'' [D (StatusCode resp)] [])
      else
        (case json_Decode lib reader of
           Inl err \<Rightarrow> Inl (fmt_Errorf ''JSON decoding error: %w'' [] [err])
         | Inr apir \<Rightarrow>
             if Status apir \<noteq> ''success'' then
               Inl (fmt_Errorf ''unexpected response status: %q'' [Q (Status apir)] [])
             else Inr apir))"
  using assms by (simp add: getAPIResponse_def split: sum.splits)

lemma getAPIResponse_plain:
  assumes "Header_Get (Header resp) ''Content-Encoding'' \<noteq> ''gzip'' \<or> Uncompressed resp"
  shows "getAPIResponse lib resp =
     (resp\<lparr>Body := Closed\<rparr>,
      if StatusCode resp \<noteq> 200 then
        Inl (fmt_Errorf ''unexpected status code: %d'' [D (StatusCode resp)] [])
      else
        (case json_Decode lib (BodyReader (Body resp)) of
           Inl err \<Rightarrow> Inl (fmt_Errorf ''JSON decoding error: %w'' [] [err])
         | Inr apir \<Rightarrow>
             if Status apir \<noteq> ''success'' then
               Inl (fmt_Errorf ''unexpected response status: %q'' [Q (Status apir)] [])
             else Inr apir))"
  using assms by (auto simp add: getAPIResponse_def split: sum.splits)

text \<open>
  Claim C10. For a 200 response whose \<^verbatim>\<open>Content-Encoding\<close> header is \<^verbatim>\<open>gzip\<close> and which
  is not marked as uncompressed: when the gzip reader cannot be set up,
  \<^verbatim>\<open>getAPIResponse\<close> returns the gzip error and the header is as it was; when the gzip
  reader is set up, the header is deleted on every return, also when the function
  returns an error for malformed JSON or for a status other than \<^verbatim>\<open>success\<close>, so that the
  header of the response is then not the header it had.
\<close>

theorem getAPIResponse_header_deleted_on_error:
  assumes "StatusCode resp = 200"
    and "Header_Get (Header resp) ''Content-Encoding'' = ''gzip''"
    and "\<not> Uncompressed resp"
  shows "(\<forall>err. gzip_NewReader lib (Body resp) = Inl err \<longrightarrow>
            getAPIResponse lib resp =
              (resp\<lparr>Body := Closed\<rparr>, Inl (fmt_Errorf ''gzip decoding error: %w'' [] [err]))) \<and>
         (\<forall>reader. gzip_NewReader lib (Body resp) = Inr reader \<longrightarrow>
            fst (getAPIResponse lib resp) =
              resp\<lparr>Header := Header_Del (Header resp) ''Content-Encoding'', Body := Closed\<rparr> \<and>
            Header (fst (getAPIResponse lib resp)) ''Content-Encoding'' = None \<and>
            Header (fst (getAPIResponse lib resp)) \<noteq> Header resp \<and>
            (\<forall>err. json_Decode lib reader = Inl err \<longrightarrow>
               snd (getAPIResponse lib resp) =
                 Inl (fmt_Errorf ''JSON decoding error: %w'' [] [err])) \<and>
            (\<forall>apir. json_Decode lib reader = Inr apir \<longrightarrow> Status apir \<noteq> ''success'' \<longrightarrow>
               snd (getAPIResponse lib resp) =
                 Inl (fmt_Errorf ''unexpected response status: %q'' [Q (Status apir)] [])))"
proof (intro conjI allI impI)
  fix err
  assume "gzip_NewReader lib (Body resp) = Inl err"
  with assms show "getAPIResponse lib resp =
      (resp\<lparr>Body := Closed\<rparr>, Inl (fmt_Errorf ''gzip decoding error: %w'' [] [err]))"
    by (simp add: getAPIResponse_def)
next
  fix reader
  assume rd: "gzip_NewReader lib (Body resp) = Inr reader"
  note eq = getAPIResponse_gzip [OF assms(2,3) rd]
  show "fst (getAPIResponse lib resp) =
      resp\<lparr>Header := Header_Del (Header resp) ''Content-Encoding'', Body := Closed\<rparr>"
    by (simp add: eq)
  show "Header (fst (getAPIResponse lib resp)) ''Content-Encoding'' = None"
    by (simp add: eq Header_Del_def)
  have "Header resp ''Content-Encoding'' \<noteq> None"
    using assms(2) by (auto simp add: Header_Get_def split: option.splits)
  then show "Header (fst (getAPIResponse lib resp)) \<noteq> Header resp"
    by (auto simp add: eq Header_Del_def dest: fun_cong [where x = "''Content-Encoding''"])
  {
    fix err
    assume "json_Decode lib reader = Inl err"
    with assms(1) show "snd (getAPIResponse lib resp) =
        Inl (fmt_Errorf ''JSON decoding error: %w'' [] [err])"
      by (simp add: eq)
  }
  {
    fix apir
    assume "json_Decode lib reader = Inr apir" and "Status apir \<noteq> ''success''"
    with assms(1) show "snd (getAPIResponse lib resp) =
        Inl (fmt_Errorf ''unexpected response status: %q'' [Q (Status apir)] [])"
      by (simp add: eq)
  }
qed

theorem getAPIResponse_header_deleted_on_error_witness:
  "Header_Get (Header (example_response 200 [''Content-Encoding'' \<mapsto> [''gzip'']]))
     ''Content-Encoding'' = ''gzip'' \<and>
   fst (getAPIResponse
          (stub_stdlib (Inr (example_envelope ''error'')) (Inr []) [] (Inr \<lparr>Alerts = []\<rparr>)
             :: unit stdlib)
          (example_response 200 [''Content-Encoding'' \<mapsto> [''gzip'']])) =
     (example_response 200 Map.empty)\<lparr>Body := Closed\<rparr> \<and>
   snd (getAPIResponse
          (stub_stdlib (Inr (example_envelope ''error'')) (Inr []) [] (Inr \<lparr>Alerts = []\<rparr>)
             :: unit stdlib)
          (example_response 200 [''Content-Encoding'' \<mapsto> [''gzip'']])) =
     Inl (fmt_Errorf ''unexpected response status: %q'' [Q ''error''] []) \<and>
   snd (getAPIResponse
          (stub_stdlib (Inl (foreign_error ''invalid character'')) (Inr []) []
             (Inr \<lparr>Alerts = []\<rparr>) :: unit stdlib)
          (example_response 200 [''Content-Encoding'' \<mapsto> [''gzip'']])) =
     Inl (fmt_Errorf ''JSON decoding error: %w'' [] [foreign_error ''invalid character'']) \<and>
   getAPIResponse
     (stub_stdlib (Inr (example_envelope ''error'')) (Inr []) [] (Inr \<lparr>Alerts = []\<rparr>)
        :: unit stdlib)
     ((example_response 200 [''Content-Encoding'' \<mapsto> [''gzip'']])\<lparr>Body := Closed\<rparr>) =
     ((example_response 200 [''Content-Encoding'' \<mapsto> [''gzip'']])\<lparr>Body := Closed\<rparr>,
      Inl (fmt_Errorf ''gzip decoding error: %w'' [] [foreign_error ''gzip: invalid header'']))"
proof -
  have s: "StatusCode (example_response 200 [''Content-Encoding'' \<mapsto> [''gzip'']]) = 200"
    by (simp add: example_response_def)
  have h: "Header_Get (Header (example_response 200 [''Content-Encoding'' \<mapsto> [''gzip'']]))
             ''Content-Encoding'' = ''gzip''"
    by (simp add: example_response_def Header_Get_def)
  have u: "\<not> Uncompressed (example_response 200 [''Content-Encoding'' \<mapsto> [''gzip'']])"
    by (simp add: example_response_def)
  have s': "StatusCode ((example_response 200 [''Content-Encoding'' \<mapsto> [''gzip'']])
              \<lparr>Body := Closed\<rparr>) = 200"
    by (simp add: example_response_def)
  have h': "Header_Get (Header ((example_response 200 [''Content-Encoding'' \<mapsto> [''gzip'']])
              \<lparr>Body := Closed\<rparr>)) ''Content-Encoding'' = ''gzip''"
    by (simp add: example_response_def Header_Get_def)
  have u': "\<not> Uncompressed ((example_response 200 [''Content-Encoding'' \<mapsto> [''gzip'']])
              \<lparr>Body := Closed\<rparr>)"
    by (simp add: example_response_def)
  have a: "fst (getAPIResponse
          (stub_stdlib (Inr (example_envelope ''error'')) (Inr []) [] (Inr \<lparr>Alerts = []\<rparr>)
             :: unit stdlib)
          (example_response 200 [''Content-Encoding'' \<mapsto> [''gzip'']])) =
     (example_response 200 Map.empty)\<lparr>Body := Closed\<rparr> \<and>
   snd (getAPIResponse
          (stub_stdlib (Inr (example_envelope ''error'')) (Inr []) [] (Inr \<lparr>Alerts = []\<rparr>)
             :: unit stdlib)
          (example_response 200 [''Content-Encoding'' \<mapsto> [''gzip'']])) =
     Inl (fmt_Errorf ''unexpected response status: %q'' [Q ''error''] [])"
    using getAPIResponse_header_deleted_on_error [OF s h u,
        of "stub_stdlib (Inr (example_envelope ''error'')) (Inr []) [] (Inr \<lparr>Alerts = []\<rparr>)
              :: unit stdlib"]
    by (simp add: stub_stdlib_def example_response_def example_envelope_def Header_Del_def)
  have b: "snd (getAPIResponse
          (stub_stdlib (Inl (foreign_error ''invalid character'')) (Inr []) []
             (Inr \<lparr>Alerts = []\<rparr>) :: unit stdlib)
          (example_response 200 [''Content-Encoding'' \<mapsto> [''gzip'']])) =
     Inl (fmt_Errorf ''JSON decoding error: %w'' [] [foreign_error ''invalid character''])"
    using getAPIResponse_header_deleted_on_error [OF s h u,
        of "stub_stdlib (Inl (foreign_error ''invalid character'')) (Inr []) []
              (Inr \<lparr>Alerts = []\<rparr>) :: unit stdlib"]
    by (simp add: stub_stdlib_def example_response_def)
  have c: "getAPIResponse
     (stub_stdlib (Inr (example_envelope ''error'')) (Inr []) [] (Inr \<lparr>Alerts = []\<rparr>)
        :: unit stdlib)
     ((example_response 200 [''Content-Encoding'' \<mapsto> [''gzip'']])\<lparr>Body := Closed\<rparr>) =
     ((example_response 200 [''Content-Encoding'' \<mapsto> [''gzip'']])\<lparr>Body := Closed\<rparr>,
      Inl (fmt_Errorf ''gzip decoding error: %w'' [] [foreign_error ''gzip: invalid header'']))"
    using getAPIResponse_header_deleted_on_error [OF s' h' u',
        of "stub_stdlib (Inr (example_envelope ''error'')) (Inr []) [] (Inr \<lparr>Alerts = []\<rparr>)
              :: unit stdlib"]
    by (simp add: stub_stdlib_def example_response_def)
  from h a b c show ?thesis by (intro conjI) simp_all
qed

subsection \<open>Errors of the response rewrite\<close>

lemma errors_Is_refl: "errors_Is e e"
  by (cases e) simp_all

lemma rule_UnmarshalJSON_unknown:
  assumes "json_Unmarshal_ruleType lib b = Inr t" and "t \<noteq> ''alerting''" and "t \<noteq> ''recording''"
  shows "rule_UnmarshalJSON lib r0 b =
           Inl (fmt_Errorf ''failed to unmarshal rule: unknown type %q'' [Q t] [])"
  using assms by (simp add: rule_UnmarshalJSON_def)

lemma unmarshal_rules_first_error:
  assumes "unmarshal_rules lib pre = Inr ors"
    and "rule_UnmarshalJSON lib \<lparr>rule_alertingRule = None, rule_recordingRule = None\<rparr> b = Inl e"
  shows "unmarshal_rules lib (pre @ b # post) = Inl e"
  using assms
proof (induction pre arbitrary: ors)
  case Nil
  then show ?case by simp
next
  case (Cons x xs)
  from Cons.prems(1) obtain rs where "unmarshal_rules lib xs = Inr rs"
    by (auto split: sum.splits)
  from Cons.IH [OF this Cons.prems(2)] Cons.prems(1) show ?case
    by (auto split: sum.splits)
qed

lemma unmarshal_groups_first_error:
  assumes "unmarshal_groups lib gpre = Inr ogs"
    and "unmarshal_rules lib (raw_Rules g) = Inl e"
  shows "unmarshal_groups lib (gpre @ Some g # gpost) = Inl e"
  using assms
proof (induction gpre arbitrary: ogs)
  case Nil
  then show ?case by simp
next
  case (Cons x xs)
  from Cons.prems(1) obtain gs where gs: "unmarshal_groups lib xs = Inr gs"
    by (cases x) (auto split: sum.splits)
  from Cons.IH [OF gs Cons.prems(2)] Cons.prems(1) show ?case
    by (cases x) (auto split: sum.splits)
qed

text \<open>
  Claim C3, as amended. For a 200 response, the error of the rewrite wraps the sentinel
  \<^verbatim>\<open>errModifyResponseFailed\<close> when the failure is that of the transform \<open>f\<close>: the
  error then wraps the sentinel and the cause. A rules payload in which the first rule
  that fails to decode has a type other than \<^verbatim>\<open>alerting\<close> and \<^verbatim>\<open>recording\<close> makes the
  transform \<^verbatim>\<open>filterRules\<close> fail with the unknown-type error as its cause, so it is such
  a failure. A failure to decode the envelope is returned as
  \<^verbatim>\<open>can't decode the response\<close> with its cause, and a failure to encode the payload or the
  envelope as \<^verbatim>\<open>can't encode the data\<close> or \<^verbatim>\<open>can't encode the response\<close> with its cause:
  these carry the sentinel only if the cause does, and an envelope whose status is not
  \<^verbatim>\<open>success\<close> gives an error that does not carry it.
\<close>

theorem modifyAPIResponse_sentinel_wraps_transform_errors:
  assumes "StatusCode resp = 200"
  shows "(\<forall>resp1 apir lvalues err.
            getAPIResponse lib resp = (resp1, Inr apir) \<longrightarrow>
            MustLabelValues (Context (Request resp1)) = Return lvalues \<longrightarrow>
            f lvalues (Request resp1) apir = Return (Inl err) \<longrightarrow>
            modifyAPIResponse lib f resp =
              Return (resp1, Some (fmt_Errorf ''%w: %w'' [] [errModifyResponseFailed, err])) \<and>
            errors_Is (fmt_Errorf ''%w: %w'' [] [errModifyResponseFailed, err])
              errModifyResponseFailed \<and>
            errors_Is (fmt_Errorf ''%w: %w'' [] [errModifyResponseFailed, err]) err) \<and>
         (\<forall>apir gpre g gpost ogs pre b post ors t lvalues req.
            json_groups lib (Data apir) = Inr (gpre @ Some g # gpost) \<longrightarrow>
            unmarshal_groups lib gpre = Inr ogs \<longrightarrow>
            raw_Rules g = pre @ b # post \<longrightarrow>
            unmarshal_rules lib pre = Inr ors \<longrightarrow>
            json_Unmarshal_ruleType lib b = Inr t \<longrightarrow>
            t \<noteq> ''alerting'' \<longrightarrow> t \<noteq> ''recording'' \<longrightarrow>
            filterRules lib r lvalues req apir =
              Return (Inl (fmt_Errorf ''can't decode rules data: %w'' []
                [fmt_Errorf ''failed to unmarshal rule: unknown type %q'' [Q t] []]))) \<and>
         (\<forall>resp1 err.
            getAPIResponse lib resp = (resp1, Inl err) \<longrightarrow>
            modifyAPIResponse lib f resp =
              Return (resp1, Some (fmt_Errorf ''can't decode the response: %w'' [] [err])) \<and>
            errors_Is (fmt_Errorf ''can't decode the response: %w'' [] [err])
              errModifyResponseFailed = errors_Is err errModifyResponseFailed) \<and>
         (\<forall>resp1 st.
            getAPIResponse lib resp =
              (resp1, Inl (fmt_Errorf ''unexpected response status: %q'' [Q st] [])) \<longrightarrow>
            modifyAPIResponse lib f resp =
              Return (resp1, Some (fmt_Errorf ''can't decode the response: %w'' []
                [fmt_Errorf ''unexpected response status: %q'' [Q st] []])) \<and>
            \<not> errors_Is (fmt_Errorf ''can't decode the response: %w'' []
                  [fmt_Errorf ''unexpected response status: %q'' [Q st] []])
                errModifyResponseFailed) \<and>
         (\<forall>resp1 apir lvalues v err.
            getAPIResponse lib resp = (resp1, Inr apir) \<longrightarrow>
            MustLabelValues (Context (Request resp1)) = Return lvalues \<longrightarrow>
            f lvalues (Request resp1) apir = Return (Inr v) \<longrightarrow>
            json_Marshal lib v = Inl err \<longrightarrow>
            modifyAPIResponse lib f resp =
              Return (resp1, Some (fmt_Errorf ''can't encode the data: %w'' [] [err])) \<and>
            errors_Is (fmt_Errorf ''can't encode the data: %w'' [] [err])
              errModifyResponseFailed = errors_Is err errModifyResponseFailed) \<and>
         (\<forall>resp1 apir lvalues v b err.
            getAPIResponse lib resp = (resp1, Inr apir) \<longrightarrow>
            MustLabelValues (Context (Request resp1)) = Return lvalues \<longrightarrow>
            f lvalues (Request resp1) apir = Return (Inr v) \<longrightarrow>
            json_Marshal lib v = Inr b \<longrightarrow>
            json_Encode lib (apir\<lparr>Data := b\<rparr>) = Inl err \<longrightarrow>
            modifyAPIResponse lib f resp =
              Return (resp1, Some (fmt_Errorf ''can't encode the response: %w'' [] [err])) \<and>
            errors_Is (fmt_Errorf ''can't encode the response: %w'' [] [err])
              errModifyResponseFailed = errors_Is err errModifyResponseFailed)"
proof (intro conjI allI impI)
  fix resp1 apir lvalues err
  assume "getAPIResponse lib resp = (resp1, Inr apir)"
    and "MustLabelValues (Context (Request resp1)) = Return lvalues"
    and "f lvalues (Request resp1) apir = Return (Inl err)"
  with assms show "modifyAPIResponse lib f resp =
      Return (resp1, Some (fmt_Errorf ''%w: %w'' [] [errModifyResponseFailed, err]))"
    by (simp add: modifyAPIResponse_def)
  show "errors_Is (fmt_Errorf ''%w: %w'' [] [errModifyResponseFailed, err])
          errModifyResponseFailed"
    by (simp add: errors_Is_refl)
  show "errors_Is (fmt_Errorf ''%w: %w'' [] [errModifyResponseFailed, err]) err"
    by (simp add: errors_Is_refl)
next
  fix apir :: apiResponse and g :: rawGroup and gpre gpost :: "rawGroup option list"
    and ogs pre b post ors t lvalues req
  assume js: "json_groups lib (Data apir) = Inr (gpre @ Some g # gpost)"
    and gp: "unmarshal_groups lib gpre = Inr ogs"
    and rr: "raw_Rules g = pre @ b # post"
    and rp: "unmarshal_rules lib pre = Inr ors"
    and ty: "json_Unmarshal_ruleType lib b = Inr t" "t \<noteq> ''alerting''" "t \<noteq> ''recording''"
  have "unmarshal_rules lib (raw_Rules g) =
          Inl (fmt_Errorf ''failed to unmarshal rule: unknown type %q'' [Q t] [])"
    unfolding rr
    by (rule unmarshal_rules_first_error [OF rp rule_UnmarshalJSON_unknown [OF ty]])
  from unmarshal_groups_first_error [OF gp this, of gpost] js
  show "filterRules lib r lvalues req apir =
      Return (Inl (fmt_Errorf ''can't decode rules data: %w'' []
        [fmt_Errorf ''failed to unmarshal rule: unknown type %q'' [Q t] []]))"
    by (simp add: filterRules_def json_Unmarshal_rulesData_def)
next
  fix resp1 err
  assume "getAPIResponse lib resp = (resp1, Inl err)"
  with assms show "modifyAPIResponse lib f resp =
      Return (resp1, Some (fmt_Errorf ''can't decode the response: %w'' [] [err]))"
    by (simp add: modifyAPIResponse_def)
  show "errors_Is (fmt_Errorf ''can't decode the response: %w'' [] [err])
          errModifyResponseFailed = errors_Is err errModifyResponseFailed"
    by (simp add: errModifyResponseFailed_def)
next
  fix resp1 st
  assume "getAPIResponse lib resp =
      (resp1, Inl (fmt_Errorf ''unexpected response status: %q'' [Q st] []))"
  with assms show "modifyAPIResponse lib f resp =
      Return (resp1, Some (fmt_Errorf ''can't decode the response: %w'' []
        [fmt_Errorf ''unexpected response status: %q'' [Q st] []]))"
    by (simp add: modifyAPIResponse_def)
  show "\<not> errors_Is (fmt_Errorf ''can't decode the response: %w'' []
            [fmt_Errorf ''unexpected response status: %q'' [Q st] []])
          errModifyResponseFailed"
    by (simp add: errModifyResponseFailed_def)
next
  fix resp1 apir lvalues v err
  assume "getAPIResponse lib resp = (resp1, Inr apir)"
    and "MustLabelValues (Context (Request resp1)) = Return lvalues"
    and "f lvalues (Request resp1) apir = Return (Inr v)"
    and "json_Marshal lib v = Inl err"
  with assms show "modifyAPIResponse lib f resp =
      Return (resp1, Some (fmt_Errorf ''can't encode the data: %w'' [] [err]))"
    by (simp add: modifyAPIResponse_def)
  show "errors_Is (fmt_Errorf ''can't encode the data: %w'' [] [err])
          errModifyResponseFailed = errors_Is err errModifyResponseFailed"
    by (simp add: errModifyResponseFailed_def)
next
  fix resp1 apir lvalues v b err
  assume "getAPIResponse lib resp = (resp1, Inr apir)"
    and "MustLabelValues (Context (Request resp1)) = Return lvalues"
    and "f lvalues (Request resp1) apir = Return (Inr v)"
    and "json_Marshal lib v = Inr b"
    and "json_Encode lib (apir\<lparr>Data := b\<rparr>) = Inl err"
  with assms show "modifyAPIResponse lib f resp =
      Return (resp1, Some (fmt_Errorf ''can't encode the response: %w'' [] [err]))"
    by (simp add: modifyAPIResponse_def)
  show "errors_Is (fmt_Errorf ''can't encode the response: %w'' [] [err])
          errModifyResponseFailed = errors_Is err errModifyResponseFailed"
    by (simp add: errModifyResponseFailed_def)
qed

theorem modifyAPIResponse_sentinel_wraps_transform_errors_witness:
  "modifyAPIResponse (example_stdlib_r4 :: rulesData stdlib)
     (filterRules (example_stdlib_r4 :: rulesData stdlib) (example_routes True))
     (example_response 200 Map.empty) =
   Return ((example_response 200 Map.empty)\<lparr>Body := Closed\<rparr>,
     Some (fmt_Errorf ''%w: %w'' []
       [errModifyResponseFailed,
        fmt_Errorf ''can't decode rules data: %w'' []
          [fmt_Errorf ''failed to unmarshal rule: unknown type %q'' [Q ''unknown''] []]])) \<and>
   errors_Is
     (fmt_Errorf ''%w: %w'' []
       [errModifyResponseFailed,
        fmt_Errorf ''can't decode rules data: %w'' []
          [fmt_Errorf ''failed to unmarshal rule: unknown type %q'' [Q ''unknown''] []]])
     errModifyResponseFailed"
proof -
  have s: "StatusCode (example_response 200 Map.empty) = 200"
    by (simp add: example_response_def)
  note inst = modifyAPIResponse_sentinel_wraps_transform_errors [OF s,
      of "example_stdlib_r4 :: rulesData stdlib"
         "filterRules (example_stdlib_r4 :: rulesData stdlib) (example_routes True)"
         "example_routes True"]
  have ga: "getAPIResponse (example_stdlib_r4 :: rulesData stdlib)
              (example_response 200 Map.empty) =
            ((example_response 200 Map.empty)\<lparr>Body := Closed\<rparr>, Inr (example_envelope ''success''))"
    by (simp add: getAPIResponse_def example_stdlib_r4_def stub_stdlib_def
        example_response_def example_envelope_def Header_Get_def)
  have ml: "MustLabelValues (Context (Request ((example_response 200 Map.empty)\<lparr>Body := Closed\<rparr>))) =
            Return [''a'']"
    by (simp add: MustLabelValues_def example_response_def)
  have js: "json_groups (example_stdlib_r4 :: rulesData stdlib) (Data (example_envelope ''success'')) =
            Inr ([] @ Some (example_rawGroup ''g1'' [''r1'', ''r4'']) # [])"
    by (simp add: example_stdlib_r4_def stub_stdlib_def)
  have gp: "unmarshal_groups (example_stdlib_r4 :: rulesData stdlib) [] = Inr []"
    by simp
  have rr: "raw_Rules (example_rawGroup ''g1'' [''r1'', ''r4'']) = [''r1''] @ ''r4'' # []"
    by (simp add: example_rawGroup_def)
  have rp: "unmarshal_rules (example_stdlib_r4 :: rulesData stdlib) [''r1''] = Inr [example_r1]"
    by (simp add: example_stdlib_r4_def stub_stdlib_def example_rule_table_def
        rule_UnmarshalJSON_def example_r1_def)
  have ty: "json_Unmarshal_ruleType (example_stdlib_r4 :: rulesData stdlib) ''r4'' = Inr ''unknown''"
    by (simp add: example_stdlib_r4_def stub_stdlib_def example_rule_table_def)
  have n1: "''unknown'' \<noteq> ''alerting''" by simp
  have n2: "''unknown'' \<noteq> ''recording''" by simp
  have fe: "filterRules (example_stdlib_r4 :: rulesData stdlib) (example_routes True) [''a'']
              (Request ((example_response 200 Map.empty)\<lparr>Body := Closed\<rparr>))
              (example_envelope ''success'') =
            Return (Inl (fmt_Errorf ''can't decode rules data: %w'' []
              [fmt_Errorf ''failed to unmarshal rule: unknown type %q'' [Q ''unknown''] []]))"
    by (rule inst [THEN conjunct2, THEN conjunct1, rule_format, OF js gp rr rp ty n1 n2])
  from inst [THEN conjunct1, rule_format, OF ga ml fe] show ?thesis by blast
qed

text \<open>
  The property as the specification states it fails on an envelope with the status
  \<^verbatim>\<open>error\<close>: the error of
  the rewrite is \<^verbatim>\<open>can't decode the response\<close> around the status error, and the sentinel
  is not in it.
\<close>

theorem modifyAPIResponse_sentinel_wraps_transform_errors_counterexample:
  "modifyAPIResponse (example_stdlib_status ''error'' :: rulesData stdlib)
     (filterRules (example_stdlib_status ''error'' :: rulesData stdlib) (example_routes True))
     (example_response 200 Map.empty) =
   Return ((example_response 200 Map.empty)\<lparr>Body := Closed\<rparr>,
     Some (fmt_Errorf ''can't decode the response: %w'' []
       [fmt_Errorf ''unexpected response status: %q'' [Q ''error''] []])) \<and>
   \<not> errors_Is
       (fmt_Errorf ''can't decode the response: %w'' []
         [fmt_Errorf ''unexpected response status: %q'' [Q ''error''] []])
       errModifyResponseFailed"
  by (simp add: modifyAPIResponse_def getAPIResponse_def example_stdlib_status_def
      stub_stdlib_def example_response_def example_envelope_def Header_Get_def
      errModifyResponseFailed_def)

end
